theory Spec2Isabelle
  imports Complex_Main "HOL-Library.Word"
begin

section \<open>JavaScript strings\<close>

text \<open>
  A JavaScript string is a sequence of UTF-16 code units. ASCII text is written with
  \<open>ascii\<close>; the few characters of \<^verbatim>\<open>page.tsx\<close> outside ASCII are written as
  their code units (the warning sign U+26A0 U+FE0F is \<open>[0x26A0, 0xFE0F]\<close>).
\<close>

type_synonym jsstring = "16 word list"

definition ascii :: "string \<Rightarrow> jsstring" where
  "ascii s = map of_char s"

text \<open>
  \<^verbatim>\<open>String.prototype.trim\<close> removes WhiteSpace and LineTerminator code points from
  both ends: TAB, LF, VT, FF, CR, SP, NBSP, U+1680, U+2000..U+200A, U+2028, U+2029,
  U+202F, U+205F, U+3000 and U+FEFF. All of them are single code units.
\<close>

definition isWhiteSpace :: "16 word \<Rightarrow> bool" where
  "isWhiteSpace c \<longleftrightarrow>
     c = 0x9 \<or> c = 0xA \<or> c = 0xB \<or> c = 0xC \<or> c = 0xD \<or> c = 0x20 \<or> c = 0xA0 \<or>
     c = 0x1680 \<or> (0x2000 \<le> c \<and> c \<le> 0x200A) \<or> c = 0x2028 \<or> c = 0x2029 \<or>
     c = 0x202F \<or> c = 0x205F \<or> c = 0x3000 \<or> c = 0xFEFF"

definition trim :: "jsstring \<Rightarrow> jsstring" where
  "trim s = rev (dropWhile isWhiteSpace (rev (dropWhile isWhiteSpace s)))"

text \<open>
  \<^verbatim>\<open>hay.includes(needle)\<close>: the needle occurs in the hay as a run of consecutive
  code units. \<open>startsWith hay needle\<close> is the test at position 0.
\<close>

fun startsWith :: "jsstring \<Rightarrow> jsstring \<Rightarrow> bool" where
  "startsWith hay [] = True"
| "startsWith [] (n # ns) = False"
| "startsWith (h # hs) (n # ns) = (h = n \<and> startsWith hs ns)"

fun str_includes :: "jsstring \<Rightarrow> jsstring \<Rightarrow> bool" where
  "str_includes [] needle = (needle = [])"
| "str_includes (h # hs) needle = (startsWith (h # hs) needle \<or> str_includes hs needle)"

section \<open>Constants of the component\<close>

definition GEMINI_MODEL :: jsstring where
  "GEMINI_MODEL = ascii ''gemini-2.5-pro''"

definition QUICK_PROMPTS :: "jsstring list" where
  "QUICK_PROMPTS =
     [ascii ''Generate a campaign for my SaaS product'',
      ascii ''Write LinkedIn post about AI marketing'',
      ascii ''Create buyer persona for B2B sales'',
      ascii ''Give me a content strategy'',
      ascii ''Plan multi-channel campaign'',
      ascii ''Optimize my email open rates'']"

definition systemPrompt :: jsstring where
  "systemPrompt = ascii
     (''You are an expert AI Marketing Wizard. You help users with:\<newline>'' @
      ''\<newline>'' @
      ''1. CAMPAIGN GENERATION: Create comprehensive marketing campaigns with phases, channels, budgets, and expected results\<newline>'' @
      ''2. CONTENT CREATION: Write engaging copy for ads, emails, social media posts, landing pages, etc.\<newline>'' @
      ''3. AUDIENCE ANALYSIS: Build detailed buyer personas, segment audiences, identify pain points\<newline>'' @
      ''4. STRATEGY ADVISORY: Provide strategic marketing recommendations based on goals and resources\<newline>'' @
      ''5. MULTI-CHANNEL PLANNING: Coordinate campaigns across multiple marketing channels\<newline>'' @
      ''6. PERFORMANCE OPTIMIZATION: Analyze metrics and suggest improvements\<newline>'' @
      ''\<newline>'' @
      ''Always be:\<newline>'' @
      ''- Specific and actionable\<newline>'' @
      ''- Data-driven when possible\<newline>'' @
      ''- Creative and strategic\<newline>'' @
      ''- Concise but thorough\<newline>'' @
      ''- Professional yet friendly\<newline>'' @
      ''\<newline>'' @
      ''Format responses with clear sections using markdown. Use emojis sparingly for visual organization.'')"

text \<open>The greeting of \<^verbatim>\<open>handleSetApiKey\<close>; each emoji is given by its code units.\<close>

definition greetingContent :: jsstring where
  "greetingContent =
     [0xD83D, 0xDC4B] @
     ascii '' Hello! I'm your AI Marketing Wizard powered by Google Gemini. I can help you with:\<newline>\<newline>'' @
     [0xD83C, 0xDFAF] @ ascii '' Campaign Generation\<newline>'' @
     [0x270D, 0xFE0F] @ ascii '' Content Creation\<newline>'' @
     [0xD83D, 0xDC65] @ ascii '' Audience Analysis\<newline>'' @
     [0xD83D, 0xDCA1] @ ascii '' Strategy Advisory\<newline>'' @
     [0xD83D, 0xDCF1] @ ascii '' Multi-channel Planning\<newline>'' @
     [0xD83D, 0xDCCA] @ ascii '' Performance Optimization\<newline>\<newline>What would you like to work on today?''"

section \<open>The component's state\<close>

datatype MessageRole = User | Assistant

text \<open>A timestamp is the reading of the clock (\<^verbatim>\<open>new Date()\<close>), in milliseconds.\<close>

type_synonym instant = nat

record Message =
  role :: MessageRole
  content :: jsstring
  timestamp :: instant

text \<open>The five \<^verbatim>\<open>useState\<close> cells of \<^verbatim>\<open>AIMarketingWizard\<close>.\<close>

record state =
  apiKey :: jsstring
  showApiInput :: bool
  messages :: "Message list"
  input :: jsstring
  isTyping :: bool

definition initial_state :: state where
  "initial_state =
     \<lparr>apiKey = [], showApiInput = True, messages = [], input = [], isTyping = False\<rparr>"

section \<open>The session gate\<close>

definition greetingMessage :: "instant \<Rightarrow> Message" where
  "greetingMessage now = \<lparr>role = Assistant, content = greetingContent, timestamp = now\<rparr>"

definition handleSetApiKey :: "instant \<Rightarrow> state \<Rightarrow> state" where
  "handleSetApiKey now s =
     (if trim (apiKey s) = [] then s
      else s\<lparr>showApiInput := False, messages := [greetingMessage now]\<rparr>)"

section \<open>JSON values and the JavaScript operations applied to them\<close>

text \<open>
  \<^verbatim>\<open>response.json()\<close> resolves to a parsed JSON value. Numbers are IEEE doubles; their
  type is left open (\<open>'n\<close>) and what the program needs of them is taken from the
  engine below. An object is the list of its own properties (keys distinct, as in any
  JavaScript object).
\<close>

datatype 'n json =
    JNull
  | JBool bool
  | JNum 'n
  | JStr jsstring
  | JArr "'n json list"
  | JObj "(jsstring \<times> 'n json) list"

text \<open>
  What depends on the JavaScript engine and is not fixed by the source: the truth value
  and the decimal form of a number, the text of the TypeError raised when a property
  (named by the argument) is read from \<^verbatim>\<open>null\<close>, and the text of the TypeError raised
  when an object cannot be converted to a primitive value.
\<close>

record 'n js_engine =
  numberIsTruthy :: "'n \<Rightarrow> bool"
  numberToString :: "'n \<Rightarrow> jsstring"
  nullReadMessage :: "jsstring \<Rightarrow> jsstring"
  toPrimitiveMessage :: jsstring

text \<open>
  A value caught by \<^verbatim>\<open>catch (error)\<close>: an instance of \<^verbatim>\<open>Error\<close> with its message,
  or anything else.
\<close>

datatype js_exception = Error jsstring | NonError

text \<open>
  \<^verbatim>\<open>v.k\<close> for a value \<open>v\<close> that is neither \<^verbatim>\<open>null\<close> nor \<^verbatim>\<open>undefined\<close> and a name \<open>k\<close>
  that no built-in prototype defines (\<^verbatim>\<open>error\<close>, \<^verbatim>\<open>message\<close>): the own property of an
  object, \<^verbatim>\<open>undefined\<close> (\<open>None\<close>) otherwise and for every primitive and array.
\<close>

fun getProp :: "jsstring \<Rightarrow> 'n json \<Rightarrow> 'n json option" where
  "getProp k (JObj kvs) = map_of kvs k"
| "getProp k v = None"

text \<open>\<^verbatim>\<open>v?.k\<close>: \<^verbatim>\<open>undefined\<close> when \<open>v\<close> is \<^verbatim>\<open>undefined\<close> or \<^verbatim>\<open>null\<close>.\<close>

fun optProp :: "jsstring \<Rightarrow> 'n json option \<Rightarrow> 'n json option" where
  "optProp k None = None"
| "optProp k (Some JNull) = None"
| "optProp k (Some v) = getProp k v"

text \<open>ToBoolean, as \<^verbatim>\<open>||\<close> applies it; \<open>None\<close> is \<^verbatim>\<open>undefined\<close>.\<close>

fun truthy :: "'n js_engine \<Rightarrow> 'n json option \<Rightarrow> bool" where
  "truthy eng None = False"
| "truthy eng (Some JNull) = False"
| "truthy eng (Some (JBool b)) = b"
| "truthy eng (Some (JNum n)) = numberIsTruthy eng n"
| "truthy eng (Some (JStr s)) = (s \<noteq> [])"
| "truthy eng (Some (JArr xs)) = True"
| "truthy eng (Some (JObj kvs)) = True"

text \<open>
  ToString, as \<^verbatim>\<open>new Error(message)\<close> applies it to its argument; \<open>Inl\<close> is a throw.
  An array is joined with commas, its \<^verbatim>\<open>null\<close> elements giving the empty string. An
  object gives \<^verbatim>\<open>[object Object]\<close> through \<^verbatim>\<open>Object.prototype.toString\<close>, unless it has
  an own property \<^verbatim>\<open>toString\<close>: a parsed JSON value is never a function, so neither
  that property nor \<^verbatim>\<open>valueOf\<close> yields a primitive and a TypeError is raised.
\<close>

fun toString :: "'n js_engine \<Rightarrow> 'n json \<Rightarrow> js_exception + jsstring"
  and joinElements :: "'n js_engine \<Rightarrow> 'n json list \<Rightarrow> js_exception + jsstring" where
  "toString eng JNull = Inr (ascii ''null'')"
| "toString eng (JBool b) = Inr (if b then ascii ''true'' else ascii ''false'')"
| "toString eng (JNum n) = Inr (numberToString eng n)"
| "toString eng (JStr s) = Inr s"
| "toString eng (JArr xs) = joinElements eng xs"
| "toString eng (JObj kvs) =
     (case map_of kvs (ascii ''toString'') of
        None \<Rightarrow> Inr (ascii ''[object Object]'')
      | Some f \<Rightarrow> Inl (Error (toPrimitiveMessage eng)))"
| "joinElements eng [] = Inr []"
| "joinElements eng [x] = (if x = JNull then Inr [] else toString eng x)"
| "joinElements eng (x # y # ys) =
     (case (if x = JNull then Inr [] else toString eng x) of
        Inl e \<Rightarrow> Inl e
      | Inr s \<Rightarrow>
          (case joinElements eng (y # ys) of
             Inl e \<Rightarrow> Inl e
           | Inr r \<Rightarrow> Inr (s @ ascii '','' @ r)))"

section \<open>The call to the completion endpoint\<close>

text \<open>
  The declared shape of a success body, \<^verbatim>\<open>interface GeminiAPIResponse\<close>; an optional
  member is an \<open>option\<close>, and \<open>None\<close> stands for a member that is missing or \<^verbatim>\<open>null\<close>,
  which \<^verbatim>\<open>?.\<close> and \<^verbatim>\<open>??\<close> treat alike.
\<close>

record Part =
  part_text :: "jsstring option"

record Content =
  parts :: "Part list option"

record Candidate =
  candidate_content :: "Content option"

record GeminiAPIResponse =
  candidates :: "Candidate list option"

text \<open>
  How \<^verbatim>\<open>await fetch(...)\<close> and the \<^verbatim>\<open>await response.json()\<close> after it end. Both
  promises reject with an \<^verbatim>\<open>Error\<close> (a TypeError, a SyntaxError or a DOMException), given
  here by its message (\<open>Inl\<close>). A response with \<^verbatim>\<open>response.ok\<close> carries a body read as
  \<^verbatim>\<open>GeminiAPIResponse\<close>, or the body \<^verbatim>\<open>null\<close> (\<open>None\<close>), which that type does not admit
  and JSON does; any other response carries a body read as \<^verbatim>\<open>any\<close>.
\<close>

datatype 'n fetch_outcome =
    FetchRejects jsstring
  | OkResponse "jsstring + GeminiAPIResponse option"
  | ErrorResponse "jsstring + 'n json"

text \<open>
  The arguments of \<^verbatim>\<open>fetch\<close>. The body is the value handed to \<^verbatim>\<open>JSON.stringify\<close>, its
  numbers the decimal literals of the source.
\<close>

record request =
  url :: jsstring
  http_method :: jsstring
  headers :: "(jsstring \<times> jsstring) list"
  body :: "rat json"

definition promptText :: "jsstring \<Rightarrow> jsstring" where
  "promptText userMessage =
     systemPrompt @ ascii ''\<newline>\<newline>User: '' @ userMessage @ ascii ''\<newline>\<newline>Assistant:''"

definition generationConfig :: "rat json" where
  "generationConfig =
     JObj [(ascii ''temperature'', JNum 0.7),
           (ascii ''topK'', JNum 40),
           (ascii ''topP'', JNum 0.95),
           (ascii ''maxOutputTokens'', JNum 2048)]"

definition requestBody :: "jsstring \<Rightarrow> rat json" where
  "requestBody userMessage =
     JObj [(ascii ''contents'',
              JArr [JObj [(ascii ''parts'',
                             JArr [JObj [(ascii ''text'', JStr (promptText userMessage))]])]]),
           (ascii ''generationConfig'', generationConfig)]"

definition callGeminiAPI_request :: "jsstring \<Rightarrow> jsstring \<Rightarrow> request" where
  "callGeminiAPI_request key userMessage =
     \<lparr>url = ascii ''https://generativelanguage.googleapis.com/v1beta/models/'' @ GEMINI_MODEL @
              ascii '':generateContent?key='' @ key,
      http_method = ascii ''POST'',
      headers = [(ascii ''Content-Type'', ascii ''application/json'')],
      body = requestBody userMessage\<rparr>"

text \<open>
  What the block under \<^verbatim>\<open>if (!response.ok)\<close> throws for a parsed body \<open>error\<close>:
  \<^verbatim>\<open>new Error(error.error?.message || 'API request failed')\<close>, or the TypeError of
  reading \<^verbatim>\<open>error.error\<close> from \<^verbatim>\<open>null\<close> or of converting the message to a string.
\<close>

definition errorBodyMessage :: "'n json \<Rightarrow> 'n json option" where
  "errorBodyMessage error = optProp (ascii ''message'') (getProp (ascii ''error'') error)"

definition errorResponseThrows :: "'n js_engine \<Rightarrow> 'n json \<Rightarrow> js_exception" where
  "errorResponseThrows eng error =
     (if error = JNull then Error (nullReadMessage eng (ascii ''error''))
      else case errorBodyMessage error of
             None \<Rightarrow> Error (ascii ''API request failed'')
           | Some message \<Rightarrow>
               if truthy eng (Some message)
               then (case toString eng message of Inl e \<Rightarrow> e | Inr m \<Rightarrow> Error m)
               else Error (ascii ''API request failed''))"

text \<open>\<^verbatim>\<open>xs?.[0]\<close> and \<^verbatim>\<open>x?.f\<close> on the declared types.\<close>

definition optFirst :: "'a list option \<Rightarrow> 'a option" where
  "optFirst xs = (case xs of None \<Rightarrow> None | Some [] \<Rightarrow> None | Some (x # _) \<Rightarrow> Some x)"

definition optField :: "('a \<Rightarrow> 'b option) \<Rightarrow> 'a option \<Rightarrow> 'b option" where
  "optField f x = (case x of None \<Rightarrow> None | Some v \<Rightarrow> f v)"

definition responseText :: "GeminiAPIResponse \<Rightarrow> jsstring option" where
  "responseText data =
     optField part_text (optFirst (optField parts (optField candidate_content
       (optFirst (candidates data)))))"

definition emptyResponseWarning :: jsstring where
  "emptyResponseWarning =
     [0x26A0, 0xFE0F] @ ascii '' Error: Received empty response from Gemini API.''"

text \<open>The \<^verbatim>\<open>try\<close> block from the point where \<^verbatim>\<open>fetch\<close> settles: \<open>Inl\<close> is a throw.\<close>

definition callGeminiAPI_try :: "'n js_engine \<Rightarrow> 'n fetch_outcome \<Rightarrow> js_exception + jsstring" where
  "callGeminiAPI_try eng outcome =
     (case outcome of
        FetchRejects m \<Rightarrow> Inl (Error m)
      | ErrorResponse (Inl m) \<Rightarrow> Inl (Error m)
      | ErrorResponse (Inr error) \<Rightarrow> Inl (errorResponseThrows eng error)
      | OkResponse (Inl m) \<Rightarrow> Inl (Error m)
      | OkResponse (Inr None) \<Rightarrow> Inl (Error (nullReadMessage eng (ascii ''candidates'')))
      | OkResponse (Inr (Some data)) \<Rightarrow>
          (case responseText data of
             Some text \<Rightarrow> Inr text
           | None \<Rightarrow> Inr emptyResponseWarning))"

text \<open>
  A failed call: \<^verbatim>\<open>fetch\<close> rejects, the response is not \<^verbatim>\<open>ok\<close>, or its body cannot be
  read or is \<^verbatim>\<open>null\<close>. These are the outcomes that leave the \<^verbatim>\<open>try\<close> block by a throw.
\<close>

fun callFailed :: "'n fetch_outcome \<Rightarrow> bool" where
  "callFailed (OkResponse (Inr (Some data))) = False"
| "callFailed outcome = True"

definition modelHintText :: jsstring where
  "modelHintText =
     ascii ''\<newline>\<newline>Tip: Make sure the model name \"'' @ GEMINI_MODEL @
     ascii ''\" is available for your API key. See the supported models here: https://ai.google.dev/gemini-api/docs/models''"

definition errorPrefix :: jsstring where
  "errorPrefix = [0x26A0, 0xFE0F] @ ascii '' Error: ''"

definition checkKeyText :: jsstring where
  "checkKeyText =
     ascii ''\<newline>\<newline>Please check your API key and try again. Get your free API key at: https://ai.google.dev/''"

text \<open>The \<^verbatim>\<open>catch\<close> block of \<^verbatim>\<open>callGeminiAPI\<close>.\<close>

definition callGeminiAPI_catch :: "js_exception \<Rightarrow> jsstring" where
  "callGeminiAPI_catch error =
     (let errorMessage = (case error of Error m \<Rightarrow> m | NonError \<Rightarrow> ascii ''Unknown error'');
          modelHint = (if str_includes errorMessage (ascii ''not found'') then modelHintText else [])
      in errorPrefix @ errorMessage @ modelHint @ checkKeyText)"

text \<open>
  How the promise of \<^verbatim>\<open>callGeminiAPI\<close> settles once \<^verbatim>\<open>fetch\<close> has: \<open>Inr\<close> is the
  string it resolves to, \<open>Inl\<close> a rejection.
\<close>

definition callGeminiAPI_settle :: "'n js_engine \<Rightarrow> 'n fetch_outcome \<Rightarrow> js_exception + jsstring" where
  "callGeminiAPI_settle eng outcome =
     (case callGeminiAPI_try eng outcome of
        Inr text \<Rightarrow> Inr text
      | Inl error \<Rightarrow> Inr (callGeminiAPI_catch error))"

text \<open>The whole call, with the network as the function \<open>fetch\<close> of the request.\<close>

definition callGeminiAPI ::
  "'n js_engine \<Rightarrow> (request \<Rightarrow> 'n fetch_outcome) \<Rightarrow> jsstring \<Rightarrow> jsstring \<Rightarrow> js_exception + jsstring" where
  "callGeminiAPI eng fetch key userMessage =
     callGeminiAPI_settle eng (fetch (callGeminiAPI_request key userMessage))"

section \<open>Submitting a message\<close>

definition fallbackPrefix :: jsstring where
  "fallbackPrefix = [0x26A0, 0xFE0F] @ ascii '' An error occurred: ''"

text \<open>
  \<^verbatim>\<open>handleSend\<close> run from its call to its end with no other event in between: \<open>now\<close>
  and \<open>now'\<close> are the clock readings for the user's and the assistant's message. The
  handler reads \<^verbatim>\<open>input\<close> and \<^verbatim>\<open>apiKey\<close> of the render it belongs to, so the text
  passed to \<^verbatim>\<open>callGeminiAPI\<close> is the input before \<^verbatim>\<open>setInput('')\<close>; the three appends
  are functional updates of the latest transcript. The call is taken to settle, with the
  outcome \<open>fetch\<close> gives; a call that never settles is a run of the transition system
  below in which no \<open>FetchSettles\<close> arrives for it.
\<close>

definition handleSend ::
  "'n js_engine \<Rightarrow> (request \<Rightarrow> 'n fetch_outcome) \<Rightarrow> instant \<Rightarrow> instant \<Rightarrow> state \<Rightarrow> state" where
  "handleSend eng fetch now now' s =
     (if trim (input s) = [] then s
      else
        let userMessage = \<lparr>role = User, content = input s, timestamp = now\<rparr>;
            s1 = s\<lparr>messages := messages s @ [userMessage], input := [], isTyping := True\<rparr>;
            s2 = (case callGeminiAPI eng fetch (apiKey s) (input s) of
                    Inr aiResponse \<Rightarrow>
                      s1\<lparr>messages := messages s1 @
                         [\<lparr>role = Assistant, content = aiResponse, timestamp = now'\<rparr>]\<rparr>
                  | Inl error \<Rightarrow>
                      let fallbackMessage =
                            (case error of Error m \<Rightarrow> m | NonError \<Rightarrow> ascii ''Unknown error'')
                      in s1\<lparr>messages := messages s1 @
                            [\<lparr>role = Assistant, content = fallbackPrefix @ fallbackMessage,
                              timestamp = now'\<rparr>]\<rparr>)
        in s2\<lparr>isTyping := False\<rparr>)"

text \<open>
  The same handler in two steps, for runs in which other events arrive while the call is
  outstanding. \<open>handleSend_begin\<close> is the part up to \<^verbatim>\<open>await fetch(...)\<close>: \<open>None\<close> is the
  early return, otherwise the state after the three setters and the request issued.
  \<open>handleSend_settle\<close> is the part after the promise of \<^verbatim>\<open>callGeminiAPI\<close> has settled,
  applied to the state of that moment.
\<close>

definition handleSend_begin :: "instant \<Rightarrow> state \<Rightarrow> (state \<times> request) option" where
  "handleSend_begin now s =
     (if trim (input s) = [] then None
      else Some
        (s\<lparr>messages := messages s @ [\<lparr>role = User, content = input s, timestamp = now\<rparr>],
           input := [], isTyping := True\<rparr>,
         callGeminiAPI_request (apiKey s) (input s)))"

definition handleSend_settle :: "instant \<Rightarrow> js_exception + jsstring \<Rightarrow> state \<Rightarrow> state" where
  "handleSend_settle now' result s =
     (case result of
        Inr aiResponse \<Rightarrow>
          s\<lparr>messages := messages s @
             [\<lparr>role = Assistant, content = aiResponse, timestamp = now'\<rparr>]\<rparr>
      | Inl error \<Rightarrow>
          s\<lparr>messages := messages s @
             [\<lparr>role = Assistant,
               content = fallbackPrefix @
                 (case error of Error m \<Rightarrow> m | NonError \<Rightarrow> ascii ''Unknown error''),
               timestamp = now'\<rparr>]\<rparr>)
     \<lparr>isTyping := False\<rparr>"

section \<open>The interface as a transition system\<close>

text \<open>
  A configuration is the component's state and the requests issued and not yet settled.
\<close>

record config =
  ui :: state
  inflight :: "request list"

definition initial_config :: config where
  "initial_config = \<lparr>ui = initial_state, inflight = []\<rparr>"

text \<open>
  The events of the page: typing in the credential field, a key pressed there, a click on
  the start button; typing in the message box, a click on a quick prompt, a key pressed in
  the message box (with the state of Shift), a click on the send button; and the
  settling of the \<open>i\<close>-th outstanding call.
\<close>

datatype 'n event =
    ApiKeyChange jsstring
  | ApiKeyKeyPress jsstring
  | StartClick
  | InputChange jsstring
  | QuickPromptClick nat
  | InputKeyPress jsstring bool
  | SendClick
  | FetchSettles nat "'n fetch_outcome"

definition startSend :: "instant \<Rightarrow> config \<Rightarrow> config" where
  "startSend now c =
     (case handleSend_begin now (ui c) of
        None \<Rightarrow> c
      | Some (s1, req) \<Rightarrow> c\<lparr>ui := s1, inflight := inflight c @ [req]\<rparr>)"

definition handleKeyPress :: "jsstring \<Rightarrow> bool \<Rightarrow> instant \<Rightarrow> config \<Rightarrow> config" where
  "handleKeyPress key shiftKey now c =
     (if key = ascii ''Enter'' \<and> \<not> shiftKey then startSend now c else c)"

text \<open>The \<^verbatim>\<open>disabled\<close> attributes of the two buttons; a disabled button fires no click.\<close>

definition startDisabled :: "state \<Rightarrow> bool" where
  "startDisabled s \<longleftrightarrow> trim (apiKey s) = []"

definition sendDisabled :: "state \<Rightarrow> bool" where
  "sendDisabled s \<longleftrightarrow> trim (input s) = [] \<or> isTyping s"

text \<open>
  One event. The credential form is rendered while \<^verbatim>\<open>showApiInput\<close> holds and the chat
  otherwise; the quick prompts are rendered while the transcript is empty. An event on
  an element that is not rendered does not occur.
\<close>

definition step :: "'n js_engine \<Rightarrow> instant \<Rightarrow> 'n event \<Rightarrow> config \<Rightarrow> config" where
  "step eng now ev c =
     (case ev of
        ApiKeyChange v \<Rightarrow>
          if showApiInput (ui c) then c\<lparr>ui := (ui c)\<lparr>apiKey := v\<rparr>\<rparr> else c
      | ApiKeyKeyPress key \<Rightarrow>
          if showApiInput (ui c) \<and> key = ascii ''Enter''
          then c\<lparr>ui := handleSetApiKey now (ui c)\<rparr> else c
      | StartClick \<Rightarrow>
          if showApiInput (ui c) \<and> \<not> startDisabled (ui c)
          then c\<lparr>ui := handleSetApiKey now (ui c)\<rparr> else c
      | InputChange v \<Rightarrow>
          if showApiInput (ui c) then c else c\<lparr>ui := (ui c)\<lparr>input := v\<rparr>\<rparr>
      | QuickPromptClick i \<Rightarrow>
          if \<not> showApiInput (ui c) \<and> messages (ui c) = [] \<and> i < length QUICK_PROMPTS
          then c\<lparr>ui := (ui c)\<lparr>input := QUICK_PROMPTS ! i\<rparr>\<rparr> else c
      | InputKeyPress key shiftKey \<Rightarrow>
          if showApiInput (ui c) then c else handleKeyPress key shiftKey now c
      | SendClick \<Rightarrow>
          if showApiInput (ui c) \<or> sendDisabled (ui c) then c else startSend now c
      | FetchSettles i outcome \<Rightarrow>
          if i < length (inflight c)
          then c\<lparr>ui := handleSend_settle now (callGeminiAPI_settle eng outcome) (ui c),
                 inflight := take i (inflight c) @ drop (Suc i) (inflight c)\<rparr>
          else c)"

fun run :: "'n js_engine \<Rightarrow> (instant \<times> 'n event) list \<Rightarrow> config \<Rightarrow> config" where
  "run eng [] c = c"
| "run eng ((now, ev) # evs) c = run eng evs (step eng now ev c)"

text \<open>
  The events that submit through the keyboard, and the condition that the pending flag
  is set exactly while a call is outstanding and at most one is.
\<close>

definition keySubmits :: "'n event \<Rightarrow> bool" where
  "keySubmits ev =
     (case ev of InputKeyPress key shiftKey \<Rightarrow> key = ascii ''Enter'' \<and> \<not> shiftKey | _ \<Rightarrow> False)"

definition oneInFlight :: "config \<Rightarrow> bool" where
  "oneInFlight c \<longleftrightarrow>
     (isTyping (ui c) \<longleftrightarrow> inflight c \<noteq> []) \<and> length (inflight c) \<le> 1"

text \<open>
  While the credential form is shown the transcript is empty and no call is outstanding.
\<close>

definition gateOpenEmpty :: "config \<Rightarrow> bool" where
  "gateOpenEmpty c \<longleftrightarrow>
     (showApiInput (ui c) \<longrightarrow> messages (ui c) = [] \<and> inflight c = [] \<and> \<not> isTyping (ui c))"

section \<open>Scenarios\<close>

text \<open>
  Concrete inputs on which the properties below are exercised: an engine with the
  messages V8 gives, a chat state holding a quick prompt as input, a state whose input
  is white space, two success bodies, the error body of an unknown model, an error body
  whose message is the empty string, and a configuration with a call outstanding and new
  text in the message box.
\<close>

definition example_engine :: "unit js_engine" where
  "example_engine =
     \<lparr>numberIsTruthy = (\<lambda>n. True),
      numberToString = (\<lambda>n. ascii ''1''),
      nullReadMessage =
        (\<lambda>p. ascii ''Cannot read properties of null (reading '' @ [0x27] @ p @ [0x27] @ ascii '')''),
      toPrimitiveMessage = ascii ''Cannot convert object to primitive value''\<rparr>"

definition chat_state :: state where
  "chat_state =
     \<lparr>apiKey = ascii ''VALIDKEY'', showApiInput = False, messages = [greetingMessage 1],
      input = ascii ''Generate a campaign for my SaaS product'', isTyping = False\<rparr>"

definition blank_config :: config where
  "blank_config =
     \<lparr>ui = \<lparr>apiKey = ascii ''VALIDKEY'', showApiInput = False, messages = [greetingMessage 1],
            input = ascii ''  \<newline> '', isTyping = False\<rparr>,
      inflight = []\<rparr>"

definition campaign_response :: GeminiAPIResponse where
  "campaign_response =
     \<lparr>candidates = Some [\<lparr>candidate_content = Some
        \<lparr>parts = Some [\<lparr>part_text = Some (ascii ''Campaign: ...'')\<rparr>]\<rparr>\<rparr>]\<rparr>"

definition not_found_body :: "unit json" where
  "not_found_body =
     JObj [(ascii ''error'', JObj [(ascii ''message'', JStr (ascii ''model not found''))])]"

definition empty_candidates_response :: GeminiAPIResponse where
  "empty_candidates_response = \<lparr>candidates = Some []\<rparr>"

definition empty_message_body :: "unit json" where
  "empty_message_body = JObj [(ascii ''error'', JObj [(ascii ''message'', JStr [])])]"

definition pending_config :: config where
  "pending_config =
     \<lparr>ui = \<lparr>apiKey = ascii ''VALIDKEY'', showApiInput = False,
            messages = [greetingMessage 1,
                        \<lparr>role = User, content = ascii ''first'', timestamp = 2\<rparr>],
            input = ascii ''second'', isTyping = True\<rparr>,
      inflight = [callGeminiAPI_request (ascii ''VALIDKEY'') (ascii ''first'')]\<rparr>"

section \<open>Properties\<close>

subsection \<open>Strings\<close>

lemma startsWith_iff: "startsWith hay needle \<longleftrightarrow> (\<exists>ss. hay = needle @ ss)"
  by (induction hay needle rule: startsWith.induct) auto

lemma str_includes_iff: "str_includes hay needle \<longleftrightarrow> (\<exists>ps ss. hay = ps @ needle @ ss)"
proof (induction hay)
  case Nil
  then show ?case by auto
next
  case (Cons h hs)
  show ?case
  proof
    assume "str_includes (h # hs) needle"
    then consider "startsWith (h # hs) needle" | "str_includes hs needle" by auto
    then show "\<exists>ps ss. h # hs = ps @ needle @ ss"
    proof cases
      case 1
      then obtain ss where "h # hs = needle @ ss" by (auto simp: startsWith_iff)
      then have "h # hs = [] @ needle @ ss" by simp
      then show ?thesis by blast
    next
      case 2
      then obtain ps ss where "hs = ps @ needle @ ss" using Cons.IH by blast
      then have "h # hs = (h # ps) @ needle @ ss" by simp
      then show ?thesis by blast
    qed
  next
    assume "\<exists>ps ss. h # hs = ps @ needle @ ss"
    then obtain ps ss where eq: "h # hs = ps @ needle @ ss" by blast
    show "str_includes (h # hs) needle"
    proof (cases ps)
      case Nil
      with eq have "startsWith (h # hs) needle" by (auto simp: startsWith_iff)
      then show ?thesis by simp
    next
      case (Cons p ps')
      with eq have "hs = ps' @ needle @ ss" by simp
      then have "str_includes hs needle" using Cons.IH by blast
      then show ?thesis by simp
    qed
  qed
qed

lemma str_includesI: "hay = ps @ needle @ ss \<Longrightarrow> str_includes hay needle"
  using str_includes_iff by blast

lemma trim_empty_iff: "trim s = [] \<longleftrightarrow> (\<forall>c \<in> set s. isWhiteSpace c)"
proof -
  have "trim s = [] \<longleftrightarrow> dropWhile isWhiteSpace (rev (dropWhile isWhiteSpace s)) = []"
    by (simp add: trim_def)
  also have "\<dots> \<longleftrightarrow> (\<forall>c \<in> set (dropWhile isWhiteSpace s). isWhiteSpace c)"
    by (simp add: dropWhile_eq_Nil_conv)
  also have "\<dots> \<longleftrightarrow> (\<forall>c \<in> set s. isWhiteSpace c)"
  proof
    assume a: "\<forall>c \<in> set (dropWhile isWhiteSpace s). isWhiteSpace c"
    have "dropWhile isWhiteSpace s = []"
    proof (rule ccontr)
      assume "dropWhile isWhiteSpace s \<noteq> []"
      then have "\<not> isWhiteSpace (hd (dropWhile isWhiteSpace s))" by (rule hd_dropWhile)
      moreover have "hd (dropWhile isWhiteSpace s) \<in> set (dropWhile isWhiteSpace s)"
        using \<open>dropWhile isWhiteSpace s \<noteq> []\<close> by simp
      ultimately show False using a by blast
    qed
    then show "\<forall>c \<in> set s. isWhiteSpace c" by (simp add: dropWhile_eq_Nil_conv)
  next
    assume "\<forall>c \<in> set s. isWhiteSpace c"
    then show "\<forall>c \<in> set (dropWhile isWhiteSpace s). isWhiteSpace c"
      using set_dropWhileD by fastforce
  qed
  finally show ?thesis .
qed

lemma checkKeyText_parts:
  "checkKeyText =
     ascii ''\<newline>\<newline>'' @ ascii ''Please check your API key and try again.'' @ ascii '' '' @
     ascii ''Get your free API key at: https://ai.google.dev/''"
  by (simp add: checkKeyText_def ascii_def)

lemma modelHintText_parts:
  "modelHintText =
     ascii ''\<newline>\<newline>Tip: Make sure the model name \"'' @ ascii ''gemini-2.5-pro'' @
     ascii ''\" is available for your API key. See the supported models here: '' @
     ascii ''https://ai.google.dev/gemini-api/docs/models''"
  by (simp add: modelHintText_def GEMINI_MODEL_def ascii_def)

lemma includes_check_prompt:
  "str_includes (p @ checkKeyText) (ascii ''Please check your API key and try again.'')"
  by (rule str_includesI[where ps = "p @ ascii ''\<newline>\<newline>''"
        and ss = "ascii '' '' @ ascii ''Get your free API key at: https://ai.google.dev/''"])
     (simp add: checkKeyText_parts)

lemma includes_key_pointer:
  "str_includes (p @ checkKeyText) (ascii ''Get your free API key at: https://ai.google.dev/'')"
  by (rule str_includesI[where ps = "p @ ascii ''\<newline>\<newline>'' @
          ascii ''Please check your API key and try again.'' @ ascii '' ''" and ss = "[]"])
     (simp add: checkKeyText_parts)

lemma includes_model_name:
  "str_includes (p @ modelHintText @ q) (ascii ''gemini-2.5-pro'')"
  by (rule str_includesI[where ps = "p @ ascii ''\<newline>\<newline>Tip: Make sure the model name \"''"
        and ss = "ascii ''\" is available for your API key. See the supported models here: '' @
                  ascii ''https://ai.google.dev/gemini-api/docs/models'' @ q"])
     (simp add: modelHintText_parts)

lemma includes_models_pointer:
  "str_includes (p @ modelHintText @ q) (ascii ''https://ai.google.dev/gemini-api/docs/models'')"
  by (rule str_includesI[where ps = "p @ ascii ''\<newline>\<newline>Tip: Make sure the model name \"'' @
          ascii ''gemini-2.5-pro'' @
          ascii ''\" is available for your API key. See the supported models here: ''"
        and ss = q])
     (simp add: modelHintText_parts)

subsection \<open>The call to the endpoint\<close>

lemma toString_throws:
  "toString eng v = Inl e \<Longrightarrow> e = Error (toPrimitiveMessage eng)"
  "joinElements eng vs = Inl e \<Longrightarrow> e = Error (toPrimitiveMessage eng)"
  by (induction eng v and eng vs rule: toString_joinElements.induct)
     (auto split: option.splits sum.splits if_splits)

lemma errorBodyMessage_object:
  "errorBodyMessage (JObj [(ascii ''error'', JObj [(ascii ''message'', v)])]) = Some v"
  by (simp add: errorBodyMessage_def)

lemma errorResponseThrows_Error: "\<exists>m. errorResponseThrows eng error = Error m"
proof (cases "error = JNull")
  case True
  then show ?thesis by (simp add: errorResponseThrows_def)
next
  case False
  show ?thesis
  proof (cases "errorBodyMessage error")
    case None
    with False show ?thesis by (simp add: errorResponseThrows_def)
  next
    case (Some message)
    show ?thesis
    proof (cases "toString eng message")
      case (Inl e)
      then have "e = Error (toPrimitiveMessage eng)" by (rule toString_throws)
      with False Some Inl show ?thesis by (simp add: errorResponseThrows_def)
    next
      case (Inr m)
      with False Some show ?thesis by (simp add: errorResponseThrows_def)
    qed
  qed
qed

lemma errorResponseThrows_message:
  assumes "errorResponseThrows eng error = Error m"
  shows "if error = JNull then m = nullReadMessage eng (ascii ''error'')
         else (case errorBodyMessage error of
                 None \<Rightarrow> m = ascii ''API request failed''
               | Some (JStr t) \<Rightarrow> m = (if t = [] then ascii ''API request failed'' else t)
               | Some v \<Rightarrow>
                   if truthy eng (Some v)
                   then toString eng v = Inr m \<or> toString eng v = Inl (Error m)
                   else m = ascii ''API request failed'')"
proof (cases "error = JNull")
  case True
  with assms show ?thesis by (simp add: errorResponseThrows_def)
next
  case False
  show ?thesis
  proof (cases "errorBodyMessage error")
    case None
    with False assms show ?thesis by (simp add: errorResponseThrows_def)
  next
    case (Some v)
    show ?thesis
    proof (cases "truthy eng (Some v)")
      case nt: False
      with False Some assms have "m = ascii ''API request failed''"
        by (simp add: errorResponseThrows_def)
      with False Some nt show ?thesis by (cases v) auto
    next
      case tr: True
      show ?thesis
      proof (cases "toString eng v")
        case (Inl e)
        with False Some tr assms have "e = Error m" by (simp add: errorResponseThrows_def)
        with False Some tr Inl show ?thesis by (cases v) auto
      next
        case (Inr m')
        with False Some tr assms have "m' = m" by (simp add: errorResponseThrows_def)
        with False Some tr Inr show ?thesis by (cases v) auto
      qed
    qed
  qed
qed

lemma responseText_cases:
  "responseText data =
     (case candidates data of
        None \<Rightarrow> None
      | Some [] \<Rightarrow> None
      | Some (c # cs) \<Rightarrow>
          (case candidate_content c of
             None \<Rightarrow> None
           | Some ct \<Rightarrow>
               (case parts ct of
                  None \<Rightarrow> None
                | Some [] \<Rightarrow> None
                | Some (p # ps) \<Rightarrow> part_text p)))"
  by (simp add: responseText_def optField_def optFirst_def split: option.splits list.splits)

lemma callGeminiAPI_try_failed:
  assumes "callFailed outcome"
  shows "\<exists>m. callGeminiAPI_try eng outcome = Inl (Error m)"
proof (cases outcome)
  case (FetchRejects m)
  then show ?thesis by (simp add: callGeminiAPI_try_def)
next
  case (OkResponse r)
  from assms OkResponse have "(\<exists>m. r = Inl m) \<or> r = Inr None"
    by (cases "OkResponse r :: 'a fetch_outcome" rule: callFailed.cases) auto
  then show ?thesis
  proof
    assume "\<exists>m. r = Inl m"
    then obtain m where "r = Inl m" by blast
    with OkResponse show ?thesis by (simp add: callGeminiAPI_try_def)
  next
    assume "r = Inr None"
    with OkResponse show ?thesis by (simp add: callGeminiAPI_try_def)
  qed
next
  case (ErrorResponse r)
  show ?thesis
  proof (cases r)
    case (Inl m)
    with ErrorResponse show ?thesis by (simp add: callGeminiAPI_try_def)
  next
    case (Inr error)
    obtain m where "errorResponseThrows eng error = Error m"
      using errorResponseThrows_Error by blast
    with ErrorResponse Inr show ?thesis by (simp add: callGeminiAPI_try_def)
  qed
qed

lemma callGeminiAPI_try_ok:
  "callGeminiAPI_try eng (OkResponse (Inr (Some data))) =
     Inr (case responseText data of Some t \<Rightarrow> t | None \<Rightarrow> emptyResponseWarning)"
  by (simp add: callGeminiAPI_try_def split: option.splits)

lemma callGeminiAPI_try_never_NonError: "callGeminiAPI_try eng outcome \<noteq> Inl NonError"
proof (cases "callFailed outcome")
  case True
  then show ?thesis using callGeminiAPI_try_failed[of outcome eng] by auto
next
  case False
  then obtain data where "outcome = OkResponse (Inr (Some data))"
    by (cases outcome rule: callFailed.cases) auto
  then show ?thesis by (simp add: callGeminiAPI_try_ok)
qed

lemma callGeminiAPI_try_message:
  assumes "callGeminiAPI_try eng outcome = Inl (Error m)"
  shows "case outcome of
           FetchRejects t \<Rightarrow> m = t
         | OkResponse r \<Rightarrow>
             r = Inl m \<or> r = Inr None \<and> m = nullReadMessage eng (ascii ''candidates'')
         | ErrorResponse (Inl t) \<Rightarrow> m = t
         | ErrorResponse (Inr error) \<Rightarrow>
             (if error = JNull then m = nullReadMessage eng (ascii ''error'')
              else (case errorBodyMessage error of
                      None \<Rightarrow> m = ascii ''API request failed''
                    | Some (JStr t) \<Rightarrow> m = (if t = [] then ascii ''API request failed'' else t)
                    | Some v \<Rightarrow>
                        if truthy eng (Some v)
                        then toString eng v = Inr m \<or> toString eng v = Inl (Error m)
                        else m = ascii ''API request failed''))"
proof (cases outcome)
  case (FetchRejects t)
  with assms show ?thesis by (simp add: callGeminiAPI_try_def)
next
  case (OkResponse r)
  with assms show ?thesis
    by (cases "OkResponse r :: 'a fetch_outcome" rule: callFailed.cases)
       (auto simp: callGeminiAPI_try_def split: option.splits)
next
  case (ErrorResponse r)
  show ?thesis
  proof (cases r)
    case (Inl t)
    with ErrorResponse assms show ?thesis by (simp add: callGeminiAPI_try_def)
  next
    case (Inr error)
    with ErrorResponse assms have "errorResponseThrows eng error = Error m"
      by (simp add: callGeminiAPI_try_def)
    from errorResponseThrows_message[OF this] ErrorResponse Inr show ?thesis by simp
  qed
qed

lemma callGeminiAPI_settle_resolves: "\<exists>c. callGeminiAPI_settle eng outcome = Inr c"
  by (auto simp: callGeminiAPI_settle_def split: sum.splits)

lemma callGeminiAPI_settle_failed:
  assumes "callGeminiAPI_try eng outcome = Inl (Error m)"
  shows "callGeminiAPI_settle eng outcome =
           Inr (errorPrefix @ m @
                (if str_includes m (ascii ''not found'') then modelHintText else []) @
                checkKeyText)"
  using assms by (simp add: callGeminiAPI_settle_def callGeminiAPI_catch_def Let_def)

lemma callGeminiAPI_settle_unreadable:
  "callGeminiAPI_settle eng (OkResponse (Inl m)) =
     Inr (errorPrefix @ m @
          (if str_includes m (ascii ''not found'') then modelHintText else []) @ checkKeyText)"
  by (rule callGeminiAPI_settle_failed) (simp add: callGeminiAPI_try_def)

lemma callGeminiAPI_settle_null:
  "callGeminiAPI_settle eng (OkResponse (Inr None)) =
     Inr (errorPrefix @ nullReadMessage eng (ascii ''candidates'') @
          (if str_includes (nullReadMessage eng (ascii ''candidates'')) (ascii ''not found'')
           then modelHintText else []) @ checkKeyText)"
  by (rule callGeminiAPI_settle_failed) (simp add: callGeminiAPI_try_def)

lemma callGeminiAPI_settle_ok:
  "callGeminiAPI_settle eng (OkResponse (Inr (Some data))) =
     Inr (case responseText data of Some t \<Rightarrow> t | None \<Rightarrow> emptyResponseWarning)"
  by (simp add: callGeminiAPI_settle_def callGeminiAPI_try_ok)

subsection \<open>The submit handler\<close>

lemma handleSend_steps:
  "handleSend eng fetch now now' s =
     (case handleSend_begin now s of
        None \<Rightarrow> s
      | Some (s1, req) \<Rightarrow> handleSend_settle now' (callGeminiAPI_settle eng (fetch req)) s1)"
  by (simp add: handleSend_def handleSend_begin_def handleSend_settle_def callGeminiAPI_def
      Let_def split: sum.splits)

lemma handleSend_begin_Some:
  "trim (input s) \<noteq> [] \<Longrightarrow>
   handleSend_begin now s =
     Some (s\<lparr>messages := messages s @ [\<lparr>role = User, content = input s, timestamp = now\<rparr>],
             input := [], isTyping := True\<rparr>,
           callGeminiAPI_request (apiKey s) (input s))"
  by (simp add: handleSend_begin_def)

lemma handleSend_messages:
  assumes "trim (input s) \<noteq> []"
    and "callGeminiAPI_settle eng (fetch (callGeminiAPI_request (apiKey s) (input s))) = Inr c"
  shows "handleSend eng fetch now now' s =
           s\<lparr>messages := messages s @
                [\<lparr>role = User, content = input s, timestamp = now\<rparr>,
                 \<lparr>role = Assistant, content = c, timestamp = now'\<rparr>],
             input := [], isTyping := False\<rparr>"
  using assms by (simp add: handleSend_def callGeminiAPI_def Let_def)

lemma handleSend_last:
  assumes "trim (input s) \<noteq> []"
    and "callGeminiAPI_settle eng (fetch (callGeminiAPI_request (apiKey s) (input s))) = Inr c"
  shows "last (messages (handleSend eng fetch now now' s)) =
           \<lparr>role = Assistant, content = c, timestamp = now'\<rparr>"
  by (simp add: handleSend_messages[where fetch = fetch, OF assms])

lemma handleSend_uninterrupted_appends_two:
  assumes "trim (input s) \<noteq> []"
    and "fetch (callGeminiAPI_request (apiKey s) (input s)) = OkResponse r"
  shows "\<exists>c. messages (handleSend eng fetch now now' s) =
               messages s @
               [\<lparr>role = User, content = input s, timestamp = now\<rparr>,
                \<lparr>role = Assistant, content = c, timestamp = now'\<rparr>] \<and>
             length (messages (handleSend eng fetch now now' s)) = length (messages s) + 2 \<and>
             (\<forall>data. r = Inr (Some data) \<longrightarrow>
                c = (case responseText data of Some t \<Rightarrow> t | None \<Rightarrow> emptyResponseWarning))"
proof -
  obtain c where
    c: "callGeminiAPI_settle eng (fetch (callGeminiAPI_request (apiKey s) (input s))) = Inr c"
    using callGeminiAPI_settle_resolves by blast
  have "\<forall>data. r = Inr (Some data) \<longrightarrow>
          c = (case responseText data of Some t \<Rightarrow> t | None \<Rightarrow> emptyResponseWarning)"
    using c by (auto simp: assms(2) callGeminiAPI_settle_ok)
  with handleSend_messages[where fetch = fetch, OF assms(1) c] show ?thesis by simp
qed

subsection \<open>The transition system\<close>

lemma send_button_blocked_while_pending:
  "isTyping (ui c) \<Longrightarrow> step eng now SendClick c = c"
  by (simp add: step_def sendDisabled_def)

lemma handleSetApiKey_flag: "isTyping (handleSetApiKey now s) = isTyping s"
  by (simp add: handleSetApiKey_def)

lemma step_oneInFlight:
  assumes "oneInFlight c" and "\<not> keySubmits ev"
  shows "oneInFlight (step eng now ev c)"
proof (cases ev)
  case (InputKeyPress key shiftKey)
  with assms(2) have "\<not> (key = ascii ''Enter'' \<and> \<not> shiftKey)" by (simp add: keySubmits_def)
  with InputKeyPress assms(1) show ?thesis
    by (auto simp: step_def handleKeyPress_def)
next
  case SendClick
  show ?thesis
  proof (cases "showApiInput (ui c) \<or> sendDisabled (ui c)")
    case True
    with SendClick assms(1) show ?thesis by (simp add: step_def)
  next
    case False
    then have "\<not> isTyping (ui c)" and "trim (input (ui c)) \<noteq> []"
      by (simp_all add: sendDisabled_def)
    with assms(1) have "inflight c = []" by (simp add: oneInFlight_def)
    with False SendClick \<open>trim (input (ui c)) \<noteq> []\<close> show ?thesis
      by (simp add: step_def startSend_def handleSend_begin_def oneInFlight_def)
  qed
next
  case (FetchSettles i outcome)
  show ?thesis
  proof (cases "i < length (inflight c)")
    case True
    with assms(1) have "length (inflight c) = 1" and "i = 0" by (auto simp: oneInFlight_def)
    with True FetchSettles show ?thesis
      by (simp add: step_def oneInFlight_def handleSend_settle_def split: sum.splits)
  next
    case False
    with FetchSettles assms(1) show ?thesis by (simp add: step_def)
  qed
qed (use assms(1) in \<open>auto simp: step_def oneInFlight_def handleSetApiKey_flag\<close>)

lemma run_oneInFlight:
  assumes "oneInFlight c" and "\<forall>(now, ev) \<in> set evs. \<not> keySubmits ev"
  shows "oneInFlight (run eng evs c)"
  using assms
proof (induction evs arbitrary: c)
  case Nil
  then show ?case by simp
next
  case (Cons e evs)
  obtain now ev where e: "e = (now, ev)" by (cases e)
  with Cons.prems have "oneInFlight (step eng now ev c)"
    by (auto intro: step_oneInFlight)
  with Cons e show ?case by simp
qed

lemma step_gateOpenEmpty:
  assumes "gateOpenEmpty c"
  shows "gateOpenEmpty (step eng now ev c)"
proof (cases ev)
  case (FetchSettles i outcome)
  with assms show ?thesis
    by (auto simp: step_def gateOpenEmpty_def handleSend_settle_def split: sum.splits)
next
  case (InputKeyPress key shiftKey)
  with assms show ?thesis
    by (auto simp: step_def gateOpenEmpty_def handleKeyPress_def startSend_def
        handleSend_begin_def)
next
  case SendClick
  with assms show ?thesis
    by (auto simp: step_def gateOpenEmpty_def startSend_def handleSend_begin_def)
qed (use assms in \<open>auto simp: step_def gateOpenEmpty_def handleSetApiKey_def\<close>)

lemma run_gateOpenEmpty:
  "gateOpenEmpty c \<Longrightarrow> gateOpenEmpty (run eng evs c)"
proof (induction evs arbitrary: c)
  case Nil
  then show ?case by simp
next
  case (Cons e evs)
  obtain now ev where "e = (now, ev)" by (cases e)
  with Cons show ?case by (simp add: step_gateOpenEmpty)
qed

lemma initial_gateOpenEmpty: "gateOpenEmpty initial_config"
  by (simp add: gateOpenEmpty_def initial_config_def initial_state_def)

lemma step_FetchSettles:
  assumes "i < length (inflight cfg)" and "callGeminiAPI_settle eng outcome = Inr c"
  shows "step eng t (FetchSettles i outcome) cfg =
           cfg\<lparr>ui := (ui cfg)\<lparr>messages := messages (ui cfg) @
                    [\<lparr>role = Assistant, content = c, timestamp = t\<rparr>],
                  isTyping := False\<rparr>,
               inflight := take i (inflight cfg) @ drop (Suc i) (inflight cfg)\<rparr>"
  using assms by (simp add: step_def handleSend_settle_def)

lemma errorPrefix_not_fallback: "\<not> startsWith (errorPrefix @ rest) fallbackPrefix"
  by (simp add: errorPrefix_def fallbackPrefix_def ascii_def)

lemma step_while_pending:
  assumes "\<not> showApiInput (ui c)" and "isTyping (ui c)" and "\<not> keySubmits ev"
    and "\<forall>i outcome. ev \<noteq> FetchSettles i outcome"
  shows "messages (ui (step eng t ev c)) = messages (ui c) \<and>
         inflight (step eng t ev c) = inflight c \<and>
         isTyping (ui (step eng t ev c)) \<and> \<not> showApiInput (ui (step eng t ev c))"
proof (cases ev)
  case (InputKeyPress key shiftKey)
  with assms(3) have "\<not> (key = ascii ''Enter'' \<and> \<not> shiftKey)" by (simp add: keySubmits_def)
  with InputKeyPress assms(1,2) show ?thesis by (auto simp: step_def handleKeyPress_def)
next
  case (FetchSettles i outcome)
  with assms(4) show ?thesis by simp
qed (use assms(1,2) in \<open>auto simp: step_def sendDisabled_def\<close>)

lemma run_while_pending:
  assumes "\<not> showApiInput (ui c)" and "isTyping (ui c)"
    and "\<forall>(t, ev) \<in> set evs. \<not> keySubmits ev \<and> (\<forall>i outcome. ev \<noteq> FetchSettles i outcome)"
  shows "messages (ui (run eng evs c)) = messages (ui c) \<and>
         inflight (run eng evs c) = inflight c"
  using assms
proof (induction evs arbitrary: c)
  case Nil
  then show ?case by simp
next
  case (Cons e evs)
  obtain t ev where e: "e = (t, ev)" by (cases e)
  with Cons.prems(3) have q: "\<not> keySubmits ev" "\<forall>i outcome. ev \<noteq> FetchSettles i outcome"
    by auto
  note s = step_while_pending[OF Cons.prems(1,2) q, of eng t]
  from Cons.prems(3) have r: "\<forall>(t, ev) \<in> set evs.
      \<not> keySubmits ev \<and> (\<forall>i outcome. ev \<noteq> FetchSettles i outcome)"
    by simp
  from s have "\<not> showApiInput (ui (step eng t ev c))" and "isTyping (ui (step eng t ev c))"
    by simp_all
  from Cons.IH[OF this r] s e show ?case by simp
qed

lemma button_submission_appends_two:
  assumes "\<not> showApiInput (ui c)" and "\<not> isTyping (ui c)" and "inflight c = []"
    and "trim (input (ui c)) \<noteq> []"
    and "\<forall>(t, ev) \<in> set evs. \<not> keySubmits ev \<and> (\<forall>i outcome. ev \<noteq> FetchSettles i outcome)"
    and "callGeminiAPI_settle eng outcome = Inr a"
  shows "messages (ui (step eng t' (FetchSettles 0 outcome) (run eng evs (step eng t SendClick c)))) =
           messages (ui c) @
           [\<lparr>role = User, content = input (ui c), timestamp = t\<rparr>,
            \<lparr>role = Assistant, content = a, timestamp = t'\<rparr>]"
proof -
  let ?c1 = "step eng t SendClick c"
  from assms(1,2,4) have c1: "?c1 =
      c\<lparr>ui := (ui c)\<lparr>messages := messages (ui c) @
                 [\<lparr>role = User, content = input (ui c), timestamp = t\<rparr>],
               input := [], isTyping := True\<rparr>,
         inflight := inflight c @ [callGeminiAPI_request (apiKey (ui c)) (input (ui c))]\<rparr>"
    by (simp add: step_def sendDisabled_def startSend_def handleSend_begin_def)
  from c1 assms(1) have g: "\<not> showApiInput (ui ?c1)" by simp
  from c1 have p: "isTyping (ui ?c1)" by simp
  note r = run_while_pending[OF g p assms(5), of eng]
  from r c1 assms(3) have i: "0 < length (inflight (run eng evs ?c1))" by simp
  from step_FetchSettles[OF i assms(6), of t'] r c1 show ?thesis by simp
qed

subsection \<open>Scenario facts\<close>

lemma chat_state_input: "trim (input chat_state) \<noteq> []"
  by (simp add: chat_state_def trim_def ascii_def isWhiteSpace_def)

lemma campaign_text: "responseText campaign_response = Some (ascii ''Campaign: ...'')"
  by (simp add: responseText_def campaign_response_def optField_def optFirst_def)

lemma not_found_body_throws:
  "callGeminiAPI_try example_engine (ErrorResponse (Inr not_found_body)) =
     Inl (Error (ascii ''model not found''))"
proof -
  have b: "errorBodyMessage not_found_body = Some (JStr (ascii ''model not found''))"
    by (simp add: not_found_body_def errorBodyMessage_object)
  have j: "not_found_body \<noteq> JNull" by (simp add: not_found_body_def)
  have e: "ascii ''model not found'' \<noteq> []" by (simp add: ascii_def)
  show ?thesis
    by (simp add: callGeminiAPI_try_def errorResponseThrows_def b j e)
qed

lemma trim_first: "trim (ascii ''first'') \<noteq> []"
  and trim_second: "trim (ascii ''second'') \<noteq> []"
  and trim_key: "trim (ascii ''VALIDKEY'') \<noteq> []"
  by (simp_all add: trim_def ascii_def isWhiteSpace_def)

section \<open>The claims\<close>

text \<open>
  C1. While a request is pending no submission action, button or keyboard, starts a
  second call or appends a second user turn. The button is disabled while the pending
  flag is set (\<open>send_button_blocked_while_pending\<close>, and \<open>run_oneInFlight\<close> for runs
  without keyboard submission), but \<^verbatim>\<open>handleKeyPress\<close> calls \<^verbatim>\<open>handleSend\<close> whatever
  the flag: in the configuration reached below, with one call outstanding, Enter
  appends a second user turn and issues a second request, and the first call to settle
  clears the flag while the second is still outstanding.
\<close>

theorem keyboard_submit_while_pending:
  "run example_engine
     [(1, ApiKeyChange (ascii ''VALIDKEY'')), (1, StartClick),
      (2, InputChange (ascii ''first'')), (2, InputKeyPress (ascii ''Enter'') False),
      (3, InputChange (ascii ''second''))] initial_config = pending_config \<and>
   isTyping (ui pending_config) \<and>
   step example_engine 4 SendClick pending_config = pending_config \<and>
   step example_engine 4 (InputKeyPress (ascii ''Enter'') False) pending_config =
     \<lparr>ui = \<lparr>apiKey = ascii ''VALIDKEY'', showApiInput = False,
            messages = [greetingMessage 1,
                        \<lparr>role = User, content = ascii ''first'', timestamp = 2\<rparr>,
                        \<lparr>role = User, content = ascii ''second'', timestamp = 4\<rparr>],
            input = [], isTyping = True\<rparr>,
      inflight = [callGeminiAPI_request (ascii ''VALIDKEY'') (ascii ''first''),
                  callGeminiAPI_request (ascii ''VALIDKEY'') (ascii ''second'')]\<rparr> \<and>
   \<not> isTyping (ui (step example_engine 5 (FetchSettles 0 (OkResponse (Inr (Some campaign_response))))
       (step example_engine 4 (InputKeyPress (ascii ''Enter'') False) pending_config))) \<and>
   inflight (step example_engine 5 (FetchSettles 0 (OkResponse (Inr (Some campaign_response))))
       (step example_engine 4 (InputKeyPress (ascii ''Enter'') False) pending_config)) =
     [callGeminiAPI_request (ascii ''VALIDKEY'') (ascii ''second'')]"
proof -
  have r: "run example_engine
     [(1, ApiKeyChange (ascii ''VALIDKEY'')), (1, StartClick),
      (2, InputChange (ascii ''first'')), (2, InputKeyPress (ascii ''Enter'') False),
      (3, InputChange (ascii ''second''))] initial_config = pending_config"
    by (simp add: step_def initial_config_def initial_state_def handleSetApiKey_def
        startDisabled_def handleKeyPress_def startSend_def handleSend_begin_def pending_config_def
        trim_first trim_key)
  have p: "isTyping (ui pending_config)" by (simp add: pending_config_def)
  have b: "step example_engine 4 SendClick pending_config = pending_config"
    by (simp add: step_def sendDisabled_def pending_config_def)
  have k: "step example_engine 4 (InputKeyPress (ascii ''Enter'') False) pending_config =
     \<lparr>ui = \<lparr>apiKey = ascii ''VALIDKEY'', showApiInput = False,
            messages = [greetingMessage 1,
                        \<lparr>role = User, content = ascii ''first'', timestamp = 2\<rparr>,
                        \<lparr>role = User, content = ascii ''second'', timestamp = 4\<rparr>],
            input = [], isTyping = True\<rparr>,
      inflight = [callGeminiAPI_request (ascii ''VALIDKEY'') (ascii ''first''),
                  callGeminiAPI_request (ascii ''VALIDKEY'') (ascii ''second'')]\<rparr>"
    by (simp add: step_def handleKeyPress_def startSend_def handleSend_begin_def
        pending_config_def trim_second)
  have s: "\<not> isTyping (ui (step example_engine 5 (FetchSettles 0 (OkResponse (Inr (Some campaign_response))))
       (step example_engine 4 (InputKeyPress (ascii ''Enter'') False) pending_config)))"
    unfolding k by (simp add: step_def handleSend_settle_def split: sum.splits)
  have i: "inflight (step example_engine 5 (FetchSettles 0 (OkResponse (Inr (Some campaign_response))))
       (step example_engine 4 (InputKeyPress (ascii ''Enter'') False) pending_config)) =
     [callGeminiAPI_request (ascii ''VALIDKEY'') (ascii ''second'')]"
    unfolding k by (simp add: step_def)
  from r p b k s i show ?thesis by blast
qed



text \<open>
  C3. For every submission with non-empty trimmed input whose call succeeds, the
  transcript after it is the transcript before it followed by the user turn with the
  submitted text and then one assistant turn: two turns more. This holds when nothing
  comes between the submission and its answer (\<open>handleSend_uninterrupted_appends_two\<close>)
  and, whatever else happens meanwhile, for a submission made with the send button when
  no call is outstanding and none is started from the keyboard before it settles
  (\<open>button_submission_appends_two\<close>). It fails when Enter submits a second message
  while the first call is outstanding: in the run below the first submission starts
  from a transcript of one turn, its call succeeds, and the transcript then has four
  turns, the user's first turn being followed by the user's second.
\<close>

theorem overlapping_submission_appends_three:
  "messages (ui (run example_engine
     [(1, ApiKeyChange (ascii ''VALIDKEY'')), (1, StartClick),
      (2, InputChange (ascii ''first''))] initial_config)) = [greetingMessage 1] \<and>
   messages (ui (run example_engine
     [(1, ApiKeyChange (ascii ''VALIDKEY'')), (1, StartClick),
      (2, InputChange (ascii ''first'')), (2, InputKeyPress (ascii ''Enter'') False),
      (3, InputChange (ascii ''second'')), (4, InputKeyPress (ascii ''Enter'') False),
      (5, FetchSettles 0 (OkResponse (Inr (Some campaign_response))))] initial_config)) =
     [greetingMessage 1,
      \<lparr>role = User, content = ascii ''first'', timestamp = 2\<rparr>,
      \<lparr>role = User, content = ascii ''second'', timestamp = 4\<rparr>,
      \<lparr>role = Assistant, content = ascii ''Campaign: ...'', timestamp = 5\<rparr>] \<and>
   inflight (run example_engine
     [(1, ApiKeyChange (ascii ''VALIDKEY'')), (1, StartClick),
      (2, InputChange (ascii ''first'')), (2, InputKeyPress (ascii ''Enter'') False),
      (3, InputChange (ascii ''second'')), (4, InputKeyPress (ascii ''Enter'') False),
      (5, FetchSettles 0 (OkResponse (Inr (Some campaign_response))))] initial_config) =
     [callGeminiAPI_request (ascii ''VALIDKEY'') (ascii ''second'')]"
proof -
  have s: "callGeminiAPI_settle example_engine (OkResponse (Inr (Some campaign_response))) =
             Inr (ascii ''Campaign: ...'')"
    by (simp add: callGeminiAPI_settle_ok campaign_text)
  have a: "messages (ui (run example_engine
     [(1, ApiKeyChange (ascii ''VALIDKEY'')), (1, StartClick),
      (2, InputChange (ascii ''first''))] initial_config)) = [greetingMessage 1]"
    by (simp add: step_def initial_config_def initial_state_def handleSetApiKey_def
        startDisabled_def trim_key)
  have b: "run example_engine
     [(1, ApiKeyChange (ascii ''VALIDKEY'')), (1, StartClick),
      (2, InputChange (ascii ''first'')), (2, InputKeyPress (ascii ''Enter'') False),
      (3, InputChange (ascii ''second'')), (4, InputKeyPress (ascii ''Enter'') False),
      (5, FetchSettles 0 (OkResponse (Inr (Some campaign_response))))] initial_config =
     \<lparr>ui = \<lparr>apiKey = ascii ''VALIDKEY'', showApiInput = False,
            messages = [greetingMessage 1,
                        \<lparr>role = User, content = ascii ''first'', timestamp = 2\<rparr>,
                        \<lparr>role = User, content = ascii ''second'', timestamp = 4\<rparr>,
                        \<lparr>role = Assistant, content = ascii ''Campaign: ...'', timestamp = 5\<rparr>],
            input = [], isTyping = False\<rparr>,
      inflight = [callGeminiAPI_request (ascii ''VALIDKEY'') (ascii ''second'')]\<rparr>"
    by (simp add: step_def initial_config_def initial_state_def handleSetApiKey_def
        startDisabled_def handleKeyPress_def startSend_def handleSend_begin_def
        handleSend_settle_def s trim_first trim_second trim_key)
  from a b show ?thesis by simp
qed

text \<open>
  C4. For every input whose trim is empty (empty or white space only) submit is a no-op:
  the state, so the transcript and the pending flag, is unchanged and no request is
  issued, by the keyboard as by the button.
\<close>

theorem handleSend_blank_input_noop:
  assumes "trim (input (ui c)) = []"
  shows "handleSend eng fetch now now' (ui c) = ui c \<and>
         handleSend_begin now (ui c) = None \<and>
         step eng now (InputKeyPress key shiftKey) c = c \<and>
         step eng now SendClick c = c"
  using assms
  by (simp add: handleSend_def handleSend_begin_def step_def handleKeyPress_def startSend_def
      sendDisabled_def)

theorem handleSend_blank_input_noop_witness:
  "trim (input (ui blank_config)) = [] \<and>
   (\<forall>eng :: unit js_engine. \<forall>fetch.
      handleSend eng fetch 2 3 (ui blank_config) = ui blank_config \<and>
      step eng 2 (InputKeyPress (ascii ''Enter'') False) blank_config = blank_config \<and>
      step eng 2 SendClick blank_config = blank_config) \<and>
   handleSend_begin 2 (ui blank_config) = None"
proof -
  have b: "trim (input (ui blank_config)) = []"
    by (simp add: blank_config_def trim_def ascii_def isWhiteSpace_def)
  show ?thesis
    using b handleSend_blank_input_noop[OF b] by blast
qed

text \<open>
  C5. The session gate's submit action: if the trimmed credential is empty, the state does
  not change (the gate stays open, the transcript stays empty); otherwise the gate closes
  and the transcript becomes exactly one assistant turn holding the greeting. The start
  button and Enter in the credential field both run this action, and in every
  configuration reached with the gate open the transcript is empty.
\<close>

theorem handleSetApiKey_gate:
  "(trim (apiKey s) = [] \<longrightarrow> handleSetApiKey now s = s) \<and>
   (trim (apiKey s) \<noteq> [] \<longrightarrow>
      handleSetApiKey now s =
        s\<lparr>showApiInput := False,
          messages := [\<lparr>role = Assistant, content = greetingContent, timestamp = now\<rparr>]\<rparr>) \<and>
   (showApiInput (ui c) \<longrightarrow>
      step eng now StartClick c = c\<lparr>ui := handleSetApiKey now (ui c)\<rparr> \<and>
      step eng now (ApiKeyKeyPress (ascii ''Enter'')) c = c\<lparr>ui := handleSetApiKey now (ui c)\<rparr>) \<and>
   (showApiInput (ui (run eng evs initial_config)) \<longrightarrow>
      messages (ui (run eng evs initial_config)) = [])"
proof -
  have 1: "trim (apiKey s) = [] \<longrightarrow> handleSetApiKey now s = s"
    by (simp add: handleSetApiKey_def)
  have 2: "trim (apiKey s) \<noteq> [] \<longrightarrow>
      handleSetApiKey now s =
        s\<lparr>showApiInput := False,
          messages := [\<lparr>role = Assistant, content = greetingContent, timestamp = now\<rparr>]\<rparr>"
    by (simp add: handleSetApiKey_def greetingMessage_def)
  have 3: "showApiInput (ui c) \<longrightarrow>
      step eng now StartClick c = c\<lparr>ui := handleSetApiKey now (ui c)\<rparr> \<and>
      step eng now (ApiKeyKeyPress (ascii ''Enter'')) c = c\<lparr>ui := handleSetApiKey now (ui c)\<rparr>"
    by (simp add: step_def startDisabled_def handleSetApiKey_def)
  have "gateOpenEmpty (run eng evs initial_config)"
    by (rule run_gateOpenEmpty[OF initial_gateOpenEmpty])
  then have 4: "showApiInput (ui (run eng evs initial_config)) \<longrightarrow>
      messages (ui (run eng evs initial_config)) = []"
    by (simp add: gateOpenEmpty_def)
  from 1 2 3 4 show ?thesis by blast
qed

theorem handleSetApiKey_gate_witness:
  "trim (apiKey initial_state) = [] \<and>
   handleSetApiKey 0 initial_state = initial_state \<and>
   showApiInput (handleSetApiKey 0 initial_state) \<and>
   messages (handleSetApiKey 0 initial_state) = [] \<and>
   showApiInput (ui initial_config) \<and>
   step example_engine 0 StartClick initial_config = initial_config \<and>
   step example_engine 0 (ApiKeyKeyPress (ascii ''Enter'')) initial_config = initial_config \<and>
   trim (apiKey (initial_state\<lparr>apiKey := ascii ''VALIDKEY''\<rparr>)) \<noteq> [] \<and>
   \<not> showApiInput (handleSetApiKey 7 (initial_state\<lparr>apiKey := ascii ''VALIDKEY''\<rparr>)) \<and>
   messages (handleSetApiKey 7 (initial_state\<lparr>apiKey := ascii ''VALIDKEY''\<rparr>)) =
     [\<lparr>role = Assistant, content = greetingContent, timestamp = 7\<rparr>]"
proof -
  have e: "trim (apiKey initial_state) = []"
    by (simp add: initial_state_def trim_def)
  have v: "trim (apiKey (initial_state\<lparr>apiKey := ascii ''VALIDKEY''\<rparr>)) \<noteq> []"
    by (simp add: trim_def ascii_def isWhiteSpace_def)
  have g: "showApiInput (ui initial_config)"
    and u: "ui initial_config = initial_state"
    by (simp_all add: initial_config_def initial_state_def)
  note a = handleSetApiKey_gate[of initial_state 0 initial_config example_engine "[]"]
  note b = handleSetApiKey_gate[of "initial_state\<lparr>apiKey := ascii ''VALIDKEY''\<rparr>" 7
      initial_config example_engine "[]"]
  from e a have 1: "handleSetApiKey 0 initial_state = initial_state" by blast
  from g a have 3: "step example_engine 0 StartClick initial_config =
        initial_config\<lparr>ui := handleSetApiKey 0 (ui initial_config)\<rparr>"
    and 4: "step example_engine 0 (ApiKeyKeyPress (ascii ''Enter'')) initial_config =
        initial_config\<lparr>ui := handleSetApiKey 0 (ui initial_config)\<rparr>"
    by blast+
  from v b
  have 2: "handleSetApiKey 7 (initial_state\<lparr>apiKey := ascii ''VALIDKEY''\<rparr>) =
      initial_state\<lparr>apiKey := ascii ''VALIDKEY'', showApiInput := False,
          messages := [\<lparr>role = Assistant, content = greetingContent, timestamp = 7\<rparr>]\<rparr>"
    by blast
  have 5: "initial_config\<lparr>ui := initial_state\<rparr> = initial_config"
    by (simp add: initial_config_def)
  show ?thesis
    unfolding 3 4 u 1 2 5 using e v g by (simp add: initial_state_def)
qed

text \<open>
  C6, as stated, fails. An error body whose \<^verbatim>\<open>error.message\<close> is present and empty does
  not give that message but \<^verbatim>\<open>API request failed\<close>; and the error body \<^verbatim>\<open>null\<close>, with no
  message field and no transport failure, gives neither \<^verbatim>\<open>API request failed\<close> nor a
  transport error but the text of the TypeError raised by reading \<^verbatim>\<open>error.error\<close>.
\<close>

theorem failure_message_counterexample:
  "errorBodyMessage empty_message_body = Some (JStr []) \<and>
   content (last (messages
      (handleSend example_engine (\<lambda>r. ErrorResponse (Inr empty_message_body)) 2 3 chat_state))) =
     errorPrefix @ ascii ''API request failed'' @ checkKeyText \<and>
   content (last (messages
      (handleSend example_engine (\<lambda>r. ErrorResponse (Inr empty_message_body)) 2 3 chat_state))) \<noteq>
     errorPrefix @ [] @ checkKeyText \<and>
   content (last (messages
      (handleSend example_engine (\<lambda>r. ErrorResponse (Inr JNull)) 2 3 chat_state))) =
     errorPrefix @
     (ascii ''Cannot read properties of null (reading '' @ [0x27] @ ascii ''error'' @ [0x27] @
      ascii '')'') @
     checkKeyText \<and>
   \<not> str_includes
       (content (last (messages
          (handleSend example_engine (\<lambda>r. ErrorResponse (Inr JNull)) 2 3 chat_state))))
       (ascii ''API request failed'')"
proof -
  have b: "errorBodyMessage empty_message_body = Some (JStr [])"
    by (simp add: empty_message_body_def errorBodyMessage_object)
  have j: "empty_message_body \<noteq> JNull" by (simp add: empty_message_body_def)
  have t1: "callGeminiAPI_try example_engine (ErrorResponse (Inr empty_message_body)) =
              Inl (Error (ascii ''API request failed''))"
    by (simp add: callGeminiAPI_try_def errorResponseThrows_def b j)
  have n1: "\<not> str_includes (ascii ''API request failed'') (ascii ''not found'')"
    by (simp add: ascii_def)
  have c1: "callGeminiAPI_settle example_engine
              ((\<lambda>r. ErrorResponse (Inr empty_message_body))
                 (callGeminiAPI_request (apiKey chat_state) (input chat_state))) =
            Inr (errorPrefix @ ascii ''API request failed'' @ checkKeyText)"
    using callGeminiAPI_settle_failed[OF t1] n1 by simp
  have l1: "content (last (messages
      (handleSend example_engine (\<lambda>r. ErrorResponse (Inr empty_message_body)) 2 3 chat_state))) =
     errorPrefix @ ascii ''API request failed'' @ checkKeyText"
    by (simp add: handleSend_last[where fetch = "\<lambda>r. ErrorResponse (Inr empty_message_body)",
          OF chat_state_input c1])
  have d1: "errorPrefix @ ascii ''API request failed'' @ checkKeyText \<noteq>
            errorPrefix @ [] @ checkKeyText"
    by (simp add: checkKeyText_def ascii_def)
  let ?m = "ascii ''Cannot read properties of null (reading '' @ [0x27] @ ascii ''error'' @ [0x27] @
      ascii '')''"
  have t2: "callGeminiAPI_try example_engine (ErrorResponse (Inr JNull)) = Inl (Error ?m)"
    by (simp add: callGeminiAPI_try_def errorResponseThrows_def example_engine_def)
  have n2: "\<not> str_includes ?m (ascii ''not found'')"
    by (simp add: ascii_def)
  have c2: "callGeminiAPI_settle example_engine
              ((\<lambda>r. ErrorResponse (Inr JNull))
                 (callGeminiAPI_request (apiKey chat_state) (input chat_state))) =
            Inr (errorPrefix @ ?m @ checkKeyText)"
    using callGeminiAPI_settle_failed[OF t2] n2 by simp
  have l2: "content (last (messages
      (handleSend example_engine (\<lambda>r. ErrorResponse (Inr JNull)) 2 3 chat_state))) =
     errorPrefix @ ?m @ checkKeyText"
    by (simp add: handleSend_last[where fetch = "\<lambda>r. ErrorResponse (Inr JNull)",
          OF chat_state_input c2])
  have d2: "\<not> str_includes (errorPrefix @ ?m @ checkKeyText) (ascii ''API request failed'')"
    by (simp add: errorPrefix_def checkKeyText_def ascii_def)
  show ?thesis
    unfolding l1 l2 using b d1 d2 by simp
qed

text \<open>
  C6, amended. For every failed call (\<^verbatim>\<open>fetch\<close> rejects, the status is not 2xx, or the
  body cannot be read or is \<^verbatim>\<open>null\<close>) the assistant turn appended is the warning sign
  and \<^verbatim>\<open>Error:\<close>, a message, the model hint when it applies, and the reminder to check
  the API key with the address where one is obtained. The message is the body's
  \<^verbatim>\<open>error.message\<close> when that is truthy (a non-empty string as it is, another truthy
  value converted to a string), \<^verbatim>\<open>API request failed\<close> when it is missing, empty or
  otherwise falsy, and otherwise the text of the error raised: by \<^verbatim>\<open>fetch\<close>, by reading
  a body that is not JSON, by reading a property of a \<^verbatim>\<open>null\<close> body, or by converting
  the message to a string. Everything thrown in the \<^verbatim>\<open>try\<close> block is an \<^verbatim>\<open>Error\<close>
  (\<open>callGeminiAPI_try_never_NonError\<close>), so the alternative \<^verbatim>\<open>Unknown error\<close> of the
  \<^verbatim>\<open>catch\<close> block is not reached. The same turn is appended when the call settles
  among other events.
\<close>

theorem failure_turn_content:
  assumes "trim (input s) \<noteq> []"
    and "fetch (callGeminiAPI_request (apiKey s) (input s)) = outcome"
    and "callFailed outcome"
  shows "\<exists>m. messages (handleSend eng fetch now now' s) =
               messages s @
               [\<lparr>role = User, content = input s, timestamp = now\<rparr>,
                \<lparr>role = Assistant,
                 content = errorPrefix @ m @
                   (if str_includes m (ascii ''not found'') then modelHintText else []) @
                   checkKeyText,
                 timestamp = now'\<rparr>] \<and>
             str_includes (content (last (messages (handleSend eng fetch now now' s))))
               (ascii ''Please check your API key and try again.'') \<and>
             str_includes (content (last (messages (handleSend eng fetch now now' s))))
               (ascii ''Get your free API key at: https://ai.google.dev/'') \<and>
             (case outcome of
                FetchRejects t \<Rightarrow> m = t
              | OkResponse r \<Rightarrow>
                  r = Inl m \<or> r = Inr None \<and> m = nullReadMessage eng (ascii ''candidates'')
              | ErrorResponse (Inl t) \<Rightarrow> m = t
              | ErrorResponse (Inr error) \<Rightarrow>
                  (if error = JNull then m = nullReadMessage eng (ascii ''error'')
                   else (case errorBodyMessage error of
                           None \<Rightarrow> m = ascii ''API request failed''
                         | Some (JStr t) \<Rightarrow>
                             m = (if t = [] then ascii ''API request failed'' else t)
                         | Some v \<Rightarrow>
                             if truthy eng (Some v)
                             then toString eng v = Inr m \<or> toString eng v = Inl (Error m)
                             else m = ascii ''API request failed''))) \<and>
             (\<forall>cfg i t. i < length (inflight cfg) \<longrightarrow>
                messages (ui (step eng t (FetchSettles i outcome) cfg)) =
                  messages (ui cfg) @
                  [\<lparr>role = Assistant,
                    content = errorPrefix @ m @
                      (if str_includes m (ascii ''not found'') then modelHintText else []) @
                      checkKeyText,
                    timestamp = t\<rparr>])"
proof -
  from assms(3) obtain m where m: "callGeminiAPI_try eng outcome = Inl (Error m)"
    using callGeminiAPI_try_failed by blast
  let ?c = "errorPrefix @ m @
              (if str_includes m (ascii ''not found'') then modelHintText else []) @ checkKeyText"
  have c: "callGeminiAPI_settle eng (fetch (callGeminiAPI_request (apiKey s) (input s))) = Inr ?c"
    unfolding assms(2) by (rule callGeminiAPI_settle_failed[OF m])
  have st: "\<forall>cfg i t. i < length (inflight cfg) \<longrightarrow>
                messages (ui (step eng t (FetchSettles i outcome) cfg)) =
                  messages (ui cfg) @ [\<lparr>role = Assistant, content = ?c, timestamp = t\<rparr>]"
    by (simp add: step_FetchSettles[OF _ callGeminiAPI_settle_failed[OF m]])
  have ms: "messages (handleSend eng fetch now now' s) =
              messages s @
              [\<lparr>role = User, content = input s, timestamp = now\<rparr>,
               \<lparr>role = Assistant, content = ?c, timestamp = now'\<rparr>]"
    by (simp add: handleSend_messages[where fetch = fetch, OF assms(1) c])
  have l: "content (last (messages (handleSend eng fetch now now' s))) = ?c"
    by (simp add: handleSend_last[where fetch = fetch, OF assms(1) c])
  have p1: "str_includes ?c (ascii ''Please check your API key and try again.'')"
    using includes_check_prompt[of "errorPrefix @ m @
              (if str_includes m (ascii ''not found'') then modelHintText else [])"]
    by simp
  have p2: "str_includes ?c (ascii ''Get your free API key at: https://ai.google.dev/'')"
    using includes_key_pointer[of "errorPrefix @ m @
              (if str_includes m (ascii ''not found'') then modelHintText else [])"]
    by simp
  note k = callGeminiAPI_try_message[OF m]
  show ?thesis
    apply (rule exI[of _ m])
    unfolding l using ms p1 p2 k st by blast
qed

theorem failure_turn_content_witness:
  "trim (input chat_state) \<noteq> [] \<and>
   callFailed (ErrorResponse (Inr not_found_body) :: unit fetch_outcome) \<and>
   messages (handleSend example_engine (\<lambda>r. ErrorResponse (Inr not_found_body)) 2 3 chat_state) =
     messages chat_state @
     [\<lparr>role = User, content = input chat_state, timestamp = 2\<rparr>,
      \<lparr>role = Assistant,
       content = errorPrefix @ ascii ''model not found'' @ modelHintText @ checkKeyText,
       timestamp = 3\<rparr>] \<and>
   str_includes
     (content (last (messages
        (handleSend example_engine (\<lambda>r. ErrorResponse (Inr not_found_body)) 2 3 chat_state))))
     (ascii ''Please check your API key and try again.'') \<and>
   str_includes
     (content (last (messages
        (handleSend example_engine (\<lambda>r. ErrorResponse (Inr not_found_body)) 2 3 chat_state))))
     (ascii ''Get your free API key at: https://ai.google.dev/'') \<and>
   callFailed (ErrorResponse (Inr (JObj [])) :: unit fetch_outcome) \<and>
   content (last (messages
      (handleSend example_engine (\<lambda>r. ErrorResponse (Inr (JObj []))) 2 3 chat_state))) =
     errorPrefix @ ascii ''API request failed'' @ checkKeyText \<and>
   callFailed (FetchRejects (ascii ''Failed to fetch'') :: unit fetch_outcome) \<and>
   content (last (messages
      (handleSend example_engine (\<lambda>r. FetchRejects (ascii ''Failed to fetch'')) 2 3 chat_state))) =
     errorPrefix @ ascii ''Failed to fetch'' @ checkKeyText"
proof -
  note h = chat_state_input
  have f: "callFailed (ErrorResponse (Inr not_found_body) :: unit fetch_outcome)"
    and f2: "callFailed (ErrorResponse (Inr (JObj [])) :: unit fetch_outcome)"
    and f3: "callFailed (FetchRejects (ascii ''Failed to fetch'') :: unit fetch_outcome)"
    by simp_all
  have n: "str_includes (ascii ''model not found'') (ascii ''not found'')"
    and n2: "\<not> str_includes (ascii ''API request failed'') (ascii ''not found'')"
    and n3: "\<not> str_includes (ascii ''Failed to fetch'') (ascii ''not found'')"
    by (simp_all add: ascii_def)
  have b: "errorBodyMessage not_found_body = Some (JStr (ascii ''model not found''))"
    by (simp add: not_found_body_def errorBodyMessage_object)
  have b2: "errorBodyMessage (JObj [] :: unit json) = None"
    by (simp add: errorBodyMessage_def)
  have j: "not_found_body \<noteq> JNull" by (simp add: not_found_body_def)
  have e: "ascii ''model not found'' \<noteq> []" by (simp add: ascii_def)
  from failure_turn_content[where fetch = "\<lambda>r. ErrorResponse (Inr not_found_body)"
      and eng = example_engine and now = 2 and now' = 3, OF h refl f]
  obtain m where
    1: "messages (handleSend example_engine (\<lambda>r. ErrorResponse (Inr not_found_body)) 2 3 chat_state) =
               messages chat_state @
               [\<lparr>role = User, content = input chat_state, timestamp = 2\<rparr>,
                \<lparr>role = Assistant,
                 content = errorPrefix @ m @
                   (if str_includes m (ascii ''not found'') then modelHintText else []) @
                   checkKeyText,
                 timestamp = 3\<rparr>]"
    and 2: "str_includes (content (last (messages (handleSend example_engine (\<lambda>r. ErrorResponse (Inr not_found_body)) 2 3 chat_state))))
               (ascii ''Please check your API key and try again.'')"
    and 3: "str_includes (content (last (messages (handleSend example_engine (\<lambda>r. ErrorResponse (Inr not_found_body)) 2 3 chat_state))))
               (ascii ''Get your free API key at: https://ai.google.dev/'')"
    and 4: "m = ascii ''model not found''"
    using b j e by auto
  from failure_turn_content[where fetch = "\<lambda>r. ErrorResponse (Inr (JObj []))"
      and eng = example_engine and now = 2 and now' = 3, OF h refl f2]
  obtain m2 where
    5: "messages (handleSend example_engine (\<lambda>r. ErrorResponse (Inr (JObj []))) 2 3 chat_state) =
               messages chat_state @
               [\<lparr>role = User, content = input chat_state, timestamp = 2\<rparr>,
                \<lparr>role = Assistant,
                 content = errorPrefix @ m2 @
                   (if str_includes m2 (ascii ''not found'') then modelHintText else []) @
                   checkKeyText,
                 timestamp = 3\<rparr>]"
    and 6: "m2 = ascii ''API request failed''"
    using b2 by auto
  from failure_turn_content[where fetch = "\<lambda>r. FetchRejects (ascii ''Failed to fetch'')"
      and eng = example_engine and now = 2 and now' = 3, OF h refl f3]
  obtain m3 where
    7: "messages (handleSend example_engine (\<lambda>r. FetchRejects (ascii ''Failed to fetch'')) 2 3 chat_state) =
               messages chat_state @
               [\<lparr>role = User, content = input chat_state, timestamp = 2\<rparr>,
                \<lparr>role = Assistant,
                 content = errorPrefix @ m3 @
                   (if str_includes m3 (ascii ''not found'') then modelHintText else []) @
                   checkKeyText,
                 timestamp = 3\<rparr>]"
    and 8: "m3 = ascii ''Failed to fetch''"
    by auto
  from 5 6 n2 have 9: "content (last (messages
      (handleSend example_engine (\<lambda>r. ErrorResponse (Inr (JObj []))) 2 3 chat_state))) =
     errorPrefix @ ascii ''API request failed'' @ checkKeyText"
    by simp
  from 7 8 n3 have 10: "content (last (messages
      (handleSend example_engine (\<lambda>r. FetchRejects (ascii ''Failed to fetch'')) 2 3 chat_state))) =
     errorPrefix @ ascii ''Failed to fetch'' @ checkKeyText"
    by simp
  from 1 2 3 4 n h f f2 f3 9 10 show ?thesis by simp
qed

text \<open>
  C7. For every failed call, with \<open>m\<close> the message of the error thrown: if \<open>m\<close> contains
  \<^verbatim>\<open>not found\<close>, the assistant turn's content holds the model hint between the message
  and the reminder, so it contains the model identifier \<^verbatim>\<open>gemini-2.5-pro\<close> and the
  address of the list of models; otherwise nothing stands between the message and the
  reminder.
\<close>

theorem failure_turn_model_hint:
  assumes "trim (input s) \<noteq> []"
    and "fetch (callGeminiAPI_request (apiKey s) (input s)) = outcome"
    and "callFailed outcome"
  shows "\<exists>m. callGeminiAPI_try eng outcome = Inl (Error m) \<and>
             role (last (messages (handleSend eng fetch now now' s))) = Assistant \<and>
             (if str_includes m (ascii ''not found'')
              then content (last (messages (handleSend eng fetch now now' s))) =
                     errorPrefix @ m @ modelHintText @ checkKeyText \<and>
                   str_includes (content (last (messages (handleSend eng fetch now now' s))))
                     GEMINI_MODEL \<and>
                   str_includes (content (last (messages (handleSend eng fetch now now' s))))
                     (ascii ''https://ai.google.dev/gemini-api/docs/models'')
              else content (last (messages (handleSend eng fetch now now' s))) =
                     errorPrefix @ m @ checkKeyText)"
proof -
  from assms(3) obtain m where m: "callGeminiAPI_try eng outcome = Inl (Error m)"
    using callGeminiAPI_try_failed by blast
  let ?c = "errorPrefix @ m @
              (if str_includes m (ascii ''not found'') then modelHintText else []) @ checkKeyText"
  have c: "callGeminiAPI_settle eng (fetch (callGeminiAPI_request (apiKey s) (input s))) = Inr ?c"
    unfolding assms(2) by (rule callGeminiAPI_settle_failed[OF m])
  have l: "last (messages (handleSend eng fetch now now' s)) =
             \<lparr>role = Assistant, content = ?c, timestamp = now'\<rparr>"
    by (rule handleSend_last[where fetch = fetch, OF assms(1) c])
  have g: "str_includes (errorPrefix @ m @ modelHintText @ checkKeyText) GEMINI_MODEL"
    using includes_model_name[of "errorPrefix @ m" checkKeyText]
    by (simp add: GEMINI_MODEL_def)
  have d: "str_includes (errorPrefix @ m @ modelHintText @ checkKeyText)
             (ascii ''https://ai.google.dev/gemini-api/docs/models'')"
    using includes_models_pointer[of "errorPrefix @ m" checkKeyText] by simp
  show ?thesis
    apply (rule exI[of _ m])
    unfolding l using m g d by simp
qed

theorem failure_turn_model_hint_witness:
  "trim (input chat_state) \<noteq> [] \<and>
   callFailed (ErrorResponse (Inr not_found_body) :: unit fetch_outcome) \<and>
   callGeminiAPI_try example_engine (ErrorResponse (Inr not_found_body)) =
     Inl (Error (ascii ''model not found'')) \<and>
   str_includes (ascii ''model not found'') (ascii ''not found'') \<and>
   str_includes
     (content (last (messages
        (handleSend example_engine (\<lambda>r. ErrorResponse (Inr not_found_body)) 2 3 chat_state))))
     (ascii ''model not found'') \<and>
   str_includes
     (content (last (messages
        (handleSend example_engine (\<lambda>r. ErrorResponse (Inr not_found_body)) 2 3 chat_state))))
     GEMINI_MODEL \<and>
   callFailed (FetchRejects (ascii ''Failed to fetch'') :: unit fetch_outcome) \<and>
   \<not> str_includes (ascii ''Failed to fetch'') (ascii ''not found'') \<and>
   content (last (messages
      (handleSend example_engine (\<lambda>r. FetchRejects (ascii ''Failed to fetch'')) 2 3 chat_state))) =
     errorPrefix @ ascii ''Failed to fetch'' @ checkKeyText"
proof -
  note h = chat_state_input
  have f1: "callFailed (ErrorResponse (Inr not_found_body) :: unit fetch_outcome)" by simp
  have f2: "callFailed (FetchRejects (ascii ''Failed to fetch'') :: unit fetch_outcome)" by simp
  have n1: "str_includes (ascii ''model not found'') (ascii ''not found'')"
    by (simp add: ascii_def)
  have n2: "\<not> str_includes (ascii ''Failed to fetch'') (ascii ''not found'')"
    by (simp add: ascii_def)
  have t1: "callGeminiAPI_try example_engine (ErrorResponse (Inr not_found_body)) =
              Inl (Error (ascii ''model not found''))"
    by (rule not_found_body_throws)
  have t2: "callGeminiAPI_try example_engine (FetchRejects (ascii ''Failed to fetch'')) =
              Inl (Error (ascii ''Failed to fetch''))"
    by (simp add: callGeminiAPI_try_def)
  from failure_turn_model_hint[where fetch = "\<lambda>r. ErrorResponse (Inr not_found_body)"
      and eng = example_engine and now = 2 and now' = 3, OF h refl f1] t1 n1
  have a: "content (last (messages
        (handleSend example_engine (\<lambda>r. ErrorResponse (Inr not_found_body)) 2 3 chat_state))) =
        errorPrefix @ ascii ''model not found'' @ modelHintText @ checkKeyText"
    and b: "str_includes (content (last (messages
        (handleSend example_engine (\<lambda>r. ErrorResponse (Inr not_found_body)) 2 3 chat_state))))
        GEMINI_MODEL"
    by auto
  from failure_turn_model_hint[where fetch = "\<lambda>r. FetchRejects (ascii ''Failed to fetch'')"
      and eng = example_engine and now = 2 and now' = 3, OF h refl f2] t2 n2
  have c: "content (last (messages
      (handleSend example_engine (\<lambda>r. FetchRejects (ascii ''Failed to fetch'')) 2 3 chat_state))) =
     errorPrefix @ ascii ''Failed to fetch'' @ checkKeyText"
    by auto
  have i: "str_includes (errorPrefix @ ascii ''model not found'' @ modelHintText @ checkKeyText)
             (ascii ''model not found'')"
    by (rule str_includesI[where ps = errorPrefix and ss = "modelHintText @ checkKeyText"]) simp
  from h f1 f2 n1 n2 t1 a b c i show ?thesis by simp
qed

text \<open>
  C8. For every submission the request body holds exactly one prompt string, the fixed
  preamble followed by the user marker, the submitted text and the assistant marker, and
  the generation config with temperature 0.7, topK 40, topP 0.95 and maxOutputTokens
  2048. The request does not depend on the transcript: whatever turns it holds, the same
  request is issued.
\<close>

theorem request_body_latest_turn_only:
  assumes "handleSend_begin now s = Some (s1, req)"
  shows "req = callGeminiAPI_request (apiKey s) (input s) \<and>
         body req =
           JObj [(ascii ''contents'',
                    JArr [JObj [(ascii ''parts'',
                      JArr [JObj [(ascii ''text'',
                        JStr (systemPrompt @ ascii ''\<newline>\<newline>User: '' @ input s @
                              ascii ''\<newline>\<newline>Assistant:''))]])]]),
                 (ascii ''generationConfig'',
                    JObj [(ascii ''temperature'', JNum 0.7),
                          (ascii ''topK'', JNum 40),
                          (ascii ''topP'', JNum 0.95),
                          (ascii ''maxOutputTokens'', JNum 2048)])] \<and>
         map_option snd (handleSend_begin now2 (s\<lparr>messages := ms\<rparr>)) = Some req"
proof -
  from assms have t: "trim (input s) \<noteq> []"
    by (auto simp: handleSend_begin_def split: if_splits)
  from assms t have r: "req = callGeminiAPI_request (apiKey s) (input s)"
    by (simp add: handleSend_begin_def)
  have b: "body (callGeminiAPI_request (apiKey s) (input s)) =
           JObj [(ascii ''contents'',
                    JArr [JObj [(ascii ''parts'',
                      JArr [JObj [(ascii ''text'',
                        JStr (systemPrompt @ ascii ''\<newline>\<newline>User: '' @ input s @
                              ascii ''\<newline>\<newline>Assistant:''))]])]]),
                 (ascii ''generationConfig'',
                    JObj [(ascii ''temperature'', JNum 0.7),
                          (ascii ''topK'', JNum 40),
                          (ascii ''topP'', JNum 0.95),
                          (ascii ''maxOutputTokens'', JNum 2048)])]"
    by (simp add: callGeminiAPI_request_def requestBody_def promptText_def generationConfig_def)
  have m: "map_option snd (handleSend_begin now2 (s\<lparr>messages := ms\<rparr>)) = Some req"
    using t r by (simp add: handleSend_begin_def)
  from r b m show ?thesis by simp
qed

theorem request_body_latest_turn_only_witness:
  "(\<exists>s1. handleSend_begin 2 chat_state =
      Some (s1, callGeminiAPI_request (ascii ''VALIDKEY'')
                  (ascii ''Generate a campaign for my SaaS product''))) \<and>
   body (callGeminiAPI_request (ascii ''VALIDKEY'') (ascii ''Generate a campaign for my SaaS product'')) =
     JObj [(ascii ''contents'',
              JArr [JObj [(ascii ''parts'',
                JArr [JObj [(ascii ''text'',
                  JStr (systemPrompt @ ascii ''\<newline>\<newline>User: '' @
                        ascii ''Generate a campaign for my SaaS product'' @
                        ascii ''\<newline>\<newline>Assistant:''))]])]]),
           (ascii ''generationConfig'',
              JObj [(ascii ''temperature'', JNum 0.7),
                    (ascii ''topK'', JNum 40),
                    (ascii ''topP'', JNum 0.95),
                    (ascii ''maxOutputTokens'', JNum 2048)])] \<and>
   map_option snd (handleSend_begin 9 (chat_state\<lparr>messages := []\<rparr>)) =
     Some (callGeminiAPI_request (ascii ''VALIDKEY'') (ascii ''Generate a campaign for my SaaS product''))"
proof -
  have k: "apiKey chat_state = ascii ''VALIDKEY''"
    and i: "input chat_state = ascii ''Generate a campaign for my SaaS product''"
    by (simp_all add: chat_state_def)
  have b: "handleSend_begin 2 chat_state =
      Some (chat_state\<lparr>messages := messages chat_state @
                [\<lparr>role = User, content = input chat_state, timestamp = 2\<rparr>],
              input := [], isTyping := True\<rparr>,
            callGeminiAPI_request (ascii ''VALIDKEY'')
                  (ascii ''Generate a campaign for my SaaS product''))"
    using handleSend_begin_Some[OF chat_state_input, of 2] by (simp add: k i)
  from request_body_latest_turn_only[OF b, of 9 "[]"] b show ?thesis
    by (simp add: i k)
qed

text \<open>
  C9, as stated, fails: an HTTP-success response whose body cannot be read (here an empty
  body, for which \<^verbatim>\<open>response.json()\<close> rejects) has no text part, and the turn appended
  is the failure warning built from the error's message, not the warning of an empty
  response.
\<close>

theorem unreadable_ok_body_counterexample:
  "content (last (messages
      (handleSend example_engine (\<lambda>r. OkResponse (Inl (ascii ''Unexpected end of JSON input'')))
         2 3 chat_state))) =
     [0x26A0, 0xFE0F] @
     ascii '' Error: Unexpected end of JSON input\<newline>\<newline>Please check your API key and try again. Get your free API key at: https://ai.google.dev/'' \<and>
   content (last (messages
      (handleSend example_engine (\<lambda>r. OkResponse (Inl (ascii ''Unexpected end of JSON input'')))
         2 3 chat_state))) \<noteq> emptyResponseWarning"
proof -
  have n: "\<not> str_includes (ascii ''Unexpected end of JSON input'') (ascii ''not found'')"
    by (simp add: ascii_def)
  have c: "callGeminiAPI_settle example_engine
             ((\<lambda>r. OkResponse (Inl (ascii ''Unexpected end of JSON input'')))
                (callGeminiAPI_request (apiKey chat_state) (input chat_state))) =
           Inr (errorPrefix @ ascii ''Unexpected end of JSON input'' @ checkKeyText)"
    using n by (simp add: callGeminiAPI_settle_unreadable)
  have l: "content (last (messages
      (handleSend example_engine (\<lambda>r. OkResponse (Inl (ascii ''Unexpected end of JSON input'')))
         2 3 chat_state))) = errorPrefix @ ascii ''Unexpected end of JSON input'' @ checkKeyText"
    by (simp add: handleSend_last[where fetch = "\<lambda>r. OkResponse (Inl (ascii ''Unexpected end of JSON input''))",
          OF chat_state_input c])
  show ?thesis
    unfolding l by (simp add: errorPrefix_def checkKeyText_def emptyResponseWarning_def ascii_def)
qed

text \<open>
  C9, amended. For every HTTP-success response whose body is read as a value of the
  declared response type, the appended assistant turn's content is the text of the first
  part of the first candidate's content (an empty text included); when candidates,
  content, parts or text is missing, or candidates or parts is empty, it is the warning
  of an empty response. When the body cannot be read or is \<^verbatim>\<open>null\<close>, it is the failure
  warning built from the message of the error raised.
\<close>

theorem ok_body_turn_content:
  assumes "trim (input s) \<noteq> []"
    and "fetch (callGeminiAPI_request (apiKey s) (input s)) = OkResponse r"
  shows "role (last (messages (handleSend eng fetch now now' s))) = Assistant \<and>
         content (last (messages (handleSend eng fetch now now' s))) =
           (case r of
              Inr (Some data) \<Rightarrow>
                (case candidates data of
                   None \<Rightarrow> emptyResponseWarning
                 | Some [] \<Rightarrow> emptyResponseWarning
                 | Some (c # cs) \<Rightarrow>
                     (case candidate_content c of
                        None \<Rightarrow> emptyResponseWarning
                      | Some ct \<Rightarrow>
                          (case parts ct of
                             None \<Rightarrow> emptyResponseWarning
                           | Some [] \<Rightarrow> emptyResponseWarning
                           | Some (p # ps) \<Rightarrow>
                               (case part_text p of
                                  None \<Rightarrow> emptyResponseWarning
                                | Some t \<Rightarrow> t))))
            | Inr None \<Rightarrow>
                errorPrefix @ nullReadMessage eng (ascii ''candidates'') @
                (if str_includes (nullReadMessage eng (ascii ''candidates'')) (ascii ''not found'')
                 then modelHintText else []) @
                checkKeyText
            | Inl m \<Rightarrow>
                errorPrefix @ m @
                (if str_includes m (ascii ''not found'') then modelHintText else []) @
                checkKeyText)"
proof (cases r)
  case (Inl m)
  have "callGeminiAPI_settle eng (fetch (callGeminiAPI_request (apiKey s) (input s))) =
          Inr (errorPrefix @ m @
               (if str_includes m (ascii ''not found'') then modelHintText else []) @ checkKeyText)"
    by (simp only: assms(2) Inl callGeminiAPI_settle_unreadable)
  from handleSend_last[where fetch = fetch, OF assms(1) this] Inl show ?thesis by simp
next
  case (Inr body)
  show ?thesis
  proof (cases body)
    case None
    have "callGeminiAPI_settle eng (fetch (callGeminiAPI_request (apiKey s) (input s))) =
            Inr (errorPrefix @ nullReadMessage eng (ascii ''candidates'') @
                 (if str_includes (nullReadMessage eng (ascii ''candidates'')) (ascii ''not found'')
                  then modelHintText else []) @ checkKeyText)"
      by (simp only: assms(2) Inr None callGeminiAPI_settle_null)
    from handleSend_last[where fetch = fetch, OF assms(1) this] Inr None show ?thesis by simp
  next
    case (Some data)
    have "callGeminiAPI_settle eng (fetch (callGeminiAPI_request (apiKey s) (input s))) =
            Inr (case responseText data of Some t \<Rightarrow> t | None \<Rightarrow> emptyResponseWarning)"
      by (simp only: assms(2) Inr Some callGeminiAPI_settle_ok)
    from handleSend_last[where fetch = fetch, OF assms(1) this] Inr Some show ?thesis
      by (simp add: responseText_cases split: option.splits list.splits)
  qed
qed

theorem ok_body_turn_content_witness:
  "trim (input chat_state) \<noteq> [] \<and>
   content (last (messages
      (handleSend example_engine (\<lambda>r. OkResponse (Inr (Some campaign_response))) 2 3 chat_state))) =
     ascii ''Campaign: ...'' \<and>
   content (last (messages
      (handleSend example_engine (\<lambda>r. OkResponse (Inr (Some empty_candidates_response))) 2 3 chat_state))) =
     emptyResponseWarning \<and>
   content (last (messages
      (handleSend example_engine (\<lambda>r. OkResponse (Inl (ascii ''Unexpected end of JSON input'')))
         2 3 chat_state))) =
     errorPrefix @ ascii ''Unexpected end of JSON input'' @ checkKeyText"
proof -
  note h = chat_state_input
  have n: "\<not> str_includes (ascii ''Unexpected end of JSON input'') (ascii ''not found'')"
    by (simp add: ascii_def)
  show ?thesis
    using h n
      ok_body_turn_content[OF h, of "\<lambda>r. OkResponse (Inr (Some campaign_response))"
        "Inr (Some campaign_response)" example_engine 2 3]
      ok_body_turn_content[OF h, of "\<lambda>r. OkResponse (Inr (Some empty_candidates_response))"
        "Inr (Some empty_candidates_response)" example_engine 2 3]
      ok_body_turn_content[OF h, of "\<lambda>r. OkResponse (Inl (ascii ''Unexpected end of JSON input''))"
        "Inl (ascii ''Unexpected end of JSON input'')" example_engine 2 3]
    by (simp add: campaign_response_def empty_candidates_response_def)
qed

text \<open>
  C10. \<^verbatim>\<open>callGeminiAPI\<close> never rejects. Whatever \<^verbatim>\<open>fetch\<close> does, its promise resolves
  to a string: for a failed call the warning built in its \<^verbatim>\<open>catch\<close> block from the
  message of the error thrown in the \<^verbatim>\<open>try\<close> block, which starts with the warning sign
  and \<^verbatim>\<open>Error:\<close> and not with the prefix of the fallback of \<^verbatim>\<open>handleSend\<close>; otherwise
  the text of the response or the warning of an empty response. So the \<^verbatim>\<open>catch\<close> branch
  of \<^verbatim>\<open>handleSend\<close> is never taken, and every submission with non-empty trimmed input
  appends, after the user turn, exactly one assistant turn holding that string, also
  when the call settles among other events.
\<close>

theorem callGeminiAPI_never_rejects:
  assumes "fetch (callGeminiAPI_request key userMessage) = outcome"
  shows "\<exists>c. callGeminiAPI eng fetch key userMessage = Inr c \<and>
             (\<forall>e. callGeminiAPI eng fetch key userMessage \<noteq> Inl e) \<and>
             (if callFailed outcome
              then (\<exists>m. callGeminiAPI_try eng outcome = Inl (Error m) \<and>
                        c = errorPrefix @ m @
                            (if str_includes m (ascii ''not found'') then modelHintText else []) @
                            checkKeyText \<and>
                        (case outcome of
                           FetchRejects t \<Rightarrow> m = t
                         | OkResponse r \<Rightarrow>
                             r = Inl m \<or>
                             r = Inr None \<and> m = nullReadMessage eng (ascii ''candidates'')
                         | ErrorResponse (Inl t) \<Rightarrow> m = t
                         | ErrorResponse (Inr error) \<Rightarrow>
                             (if error = JNull then m = nullReadMessage eng (ascii ''error'')
                              else (case errorBodyMessage error of
                                      None \<Rightarrow> m = ascii ''API request failed''
                                    | Some (JStr t) \<Rightarrow>
                                        m = (if t = [] then ascii ''API request failed'' else t)
                                    | Some v \<Rightarrow>
                                        if truthy eng (Some v)
                                        then toString eng v = Inr m \<or>
                                             toString eng v = Inl (Error m)
                                        else m = ascii ''API request failed'')))) \<and>
                   startsWith c ([0x26A0, 0xFE0F] @ ascii '' Error: '') \<and>
                   \<not> startsWith c ([0x26A0, 0xFE0F] @ ascii '' An error occurred: '')
              else (\<exists>data. outcome = OkResponse (Inr (Some data)) \<and>
                          c = (case responseText data of
                                 Some t \<Rightarrow> t
                               | None \<Rightarrow> emptyResponseWarning))) \<and>
             (trim (input s) \<noteq> [] \<and> apiKey s = key \<and> input s = userMessage \<longrightarrow>
                handleSend eng fetch now now' s =
                  s\<lparr>messages := messages s @
                       [\<lparr>role = User, content = input s, timestamp = now\<rparr>,
                        \<lparr>role = Assistant, content = c, timestamp = now'\<rparr>],
                    input := [], isTyping := False\<rparr>) \<and>
             (\<forall>cfg i t. i < length (inflight cfg) \<longrightarrow>
                messages (ui (step eng t (FetchSettles i outcome) cfg)) =
                  messages (ui cfg) @ [\<lparr>role = Assistant, content = c, timestamp = t\<rparr>])"
proof -
  have rest: "(\<forall>e. callGeminiAPI eng fetch key userMessage \<noteq> Inl e) \<and>
      (trim (input s) \<noteq> [] \<and> apiKey s = key \<and> input s = userMessage \<longrightarrow>
         handleSend eng fetch now now' s =
           s\<lparr>messages := messages s @
                [\<lparr>role = User, content = input s, timestamp = now\<rparr>,
                 \<lparr>role = Assistant, content = c, timestamp = now'\<rparr>],
             input := [], isTyping := False\<rparr>) \<and>
      (\<forall>cfg i t. i < length (inflight cfg) \<longrightarrow>
         messages (ui (step eng t (FetchSettles i outcome) cfg)) =
           messages (ui cfg) @ [\<lparr>role = Assistant, content = c, timestamp = t\<rparr>])"
    if c: "callGeminiAPI_settle eng outcome = Inr c" for c
  proof -
    from c assms have 1: "callGeminiAPI eng fetch key userMessage = Inr c"
      by (simp add: callGeminiAPI_def)
    have 2: "trim (input s) \<noteq> [] \<and> apiKey s = key \<and> input s = userMessage \<longrightarrow>
         handleSend eng fetch now now' s =
           s\<lparr>messages := messages s @
                [\<lparr>role = User, content = input s, timestamp = now\<rparr>,
                 \<lparr>role = Assistant, content = c, timestamp = now'\<rparr>],
             input := [], isTyping := False\<rparr>"
    proof
      assume a: "trim (input s) \<noteq> [] \<and> apiKey s = key \<and> input s = userMessage"
      then have n: "trim (input s) \<noteq> []"
        and e1: "apiKey s = key" and e2: "input s = userMessage"
        by blast+
      have k: "callGeminiAPI_settle eng (fetch (callGeminiAPI_request (apiKey s) (input s))) = Inr c"
        unfolding e1 e2 assms by (rule c)
      show "handleSend eng fetch now now' s =
           s\<lparr>messages := messages s @
                [\<lparr>role = User, content = input s, timestamp = now\<rparr>,
                 \<lparr>role = Assistant, content = c, timestamp = now'\<rparr>],
             input := [], isTyping := False\<rparr>"
        by (rule handleSend_messages[where fetch = fetch, OF n k])
    qed
    have 3: "\<forall>cfg i t. i < length (inflight cfg) \<longrightarrow>
         messages (ui (step eng t (FetchSettles i outcome) cfg)) =
           messages (ui cfg) @ [\<lparr>role = Assistant, content = c, timestamp = t\<rparr>]"
      by (simp add: step_FetchSettles[OF _ c])
    from 1 have 0: "\<forall>e. callGeminiAPI eng fetch key userMessage \<noteq> Inl e" by simp
    from 0 2 3 show ?thesis by blast
  qed
  show ?thesis
  proof (cases "callFailed outcome")
    case True
    then obtain m where m: "callGeminiAPI_try eng outcome = Inl (Error m)"
      using callGeminiAPI_try_failed by blast
    let ?c = "errorPrefix @ m @
                (if str_includes m (ascii ''not found'') then modelHintText else []) @ checkKeyText"
    have c: "callGeminiAPI_settle eng outcome = Inr ?c"
      by (rule callGeminiAPI_settle_failed[OF m])
    have 1: "callGeminiAPI eng fetch key userMessage = Inr ?c"
      unfolding callGeminiAPI_def assms by (rule c)
    have p: "startsWith ?c ([0x26A0, 0xFE0F] @ ascii '' Error: '')"
      by (simp add: startsWith_iff errorPrefix_def)
    have q: "\<not> startsWith ?c ([0x26A0, 0xFE0F] @ ascii '' An error occurred: '')"
      using errorPrefix_not_fallback[of "m @
                (if str_includes m (ascii ''not found'') then modelHintText else []) @ checkKeyText"]
      by (simp add: fallbackPrefix_def)
    note k = callGeminiAPI_try_message[OF m]
    have a: "\<exists>m'. callGeminiAPI_try eng outcome = Inl (Error m') \<and>
                        ?c = errorPrefix @ m' @
                            (if str_includes m' (ascii ''not found'') then modelHintText else []) @
                            checkKeyText \<and>
                        (case outcome of
                           FetchRejects t \<Rightarrow> m' = t
                         | OkResponse r \<Rightarrow>
                             r = Inl m' \<or>
                             r = Inr None \<and> m' = nullReadMessage eng (ascii ''candidates'')
                         | ErrorResponse (Inl t) \<Rightarrow> m' = t
                         | ErrorResponse (Inr error) \<Rightarrow>
                             (if error = JNull then m' = nullReadMessage eng (ascii ''error'')
                              else (case errorBodyMessage error of
                                      None \<Rightarrow> m' = ascii ''API request failed''
                                    | Some (JStr t) \<Rightarrow>
                                        m' = (if t = [] then ascii ''API request failed'' else t)
                                    | Some v \<Rightarrow>
                                        if truthy eng (Some v)
                                        then toString eng v = Inr m' \<or>
                                             toString eng v = Inl (Error m')
                                        else m' = ascii ''API request failed'')))"
      using m k by blast
    from True a p q rest[OF c] 1 show ?thesis
      by (intro exI[of _ ?c] conjI) (simp_all only: if_True, blast+)
  next
    case False
    then obtain data where d: "outcome = OkResponse (Inr (Some data))"
      by (cases outcome rule: callFailed.cases) auto
    let ?c = "case responseText data of Some t \<Rightarrow> t | None \<Rightarrow> emptyResponseWarning"
    have c: "callGeminiAPI_settle eng outcome = Inr ?c"
      by (simp add: d callGeminiAPI_settle_ok)
    have 1: "callGeminiAPI eng fetch key userMessage = Inr ?c"
      unfolding callGeminiAPI_def assms by (rule c)
    have b: "\<exists>data'. outcome = OkResponse (Inr (Some data')) \<and>
               ?c = (case responseText data' of Some t \<Rightarrow> t | None \<Rightarrow> emptyResponseWarning)"
      using d by blast
    from False b rest[OF c] 1 show ?thesis
      by (intro exI[of _ ?c] conjI) (simp_all only: if_False, blast+)
  qed
qed

theorem callGeminiAPI_never_rejects_witness:
  "callFailed (FetchRejects (ascii ''Failed to fetch'') :: unit fetch_outcome) \<and>
   callGeminiAPI example_engine (\<lambda>r. FetchRejects (ascii ''Failed to fetch''))
     (apiKey chat_state) (input chat_state) =
     Inr (errorPrefix @ ascii ''Failed to fetch'' @ checkKeyText) \<and>
   trim (input chat_state) \<noteq> [] \<and>
   handleSend example_engine (\<lambda>r. FetchRejects (ascii ''Failed to fetch'')) 2 3 chat_state =
     chat_state\<lparr>messages := messages chat_state @
         [\<lparr>role = User, content = input chat_state, timestamp = 2\<rparr>,
          \<lparr>role = Assistant,
           content = errorPrefix @ ascii ''Failed to fetch'' @ checkKeyText, timestamp = 3\<rparr>],
       input := [], isTyping := False\<rparr> \<and>
   \<not> callFailed (OkResponse (Inr (Some campaign_response)) :: unit fetch_outcome) \<and>
   callGeminiAPI example_engine (\<lambda>r. OkResponse (Inr (Some campaign_response)))
     (apiKey chat_state) (input chat_state) = Inr (ascii ''Campaign: ...'')"
proof -
  note h = chat_state_input
  have f: "callFailed (FetchRejects (ascii ''Failed to fetch'') :: unit fetch_outcome)"
    and g: "\<not> callFailed (OkResponse (Inr (Some campaign_response)) :: unit fetch_outcome)"
    by simp_all
  have n: "\<not> str_includes (ascii ''Failed to fetch'') (ascii ''not found'')"
    by (simp add: ascii_def)
  have t: "callGeminiAPI_try example_engine (FetchRejects (ascii ''Failed to fetch'')) =
             Inl (Error (ascii ''Failed to fetch''))"
    by (simp add: callGeminiAPI_try_def)
  from callGeminiAPI_never_rejects[where fetch = "\<lambda>r. FetchRejects (ascii ''Failed to fetch'')"
      and key = "apiKey chat_state" and userMessage = "input chat_state"
      and eng = example_engine and s = chat_state and now = 2 and now' = 3, OF refl]
  obtain c where
    1: "callGeminiAPI example_engine (\<lambda>r. FetchRejects (ascii ''Failed to fetch''))
          (apiKey chat_state) (input chat_state) = Inr c"
    and 2: "\<exists>m. callGeminiAPI_try example_engine (FetchRejects (ascii ''Failed to fetch'')) =
                  Inl (Error m) \<and>
                c = errorPrefix @ m @
                    (if str_includes m (ascii ''not found'') then modelHintText else []) @
                    checkKeyText"
    and 3: "handleSend example_engine (\<lambda>r. FetchRejects (ascii ''Failed to fetch'')) 2 3 chat_state =
              chat_state\<lparr>messages := messages chat_state @
                  [\<lparr>role = User, content = input chat_state, timestamp = 2\<rparr>,
                   \<lparr>role = Assistant, content = c, timestamp = 3\<rparr>],
                input := [], isTyping := False\<rparr>"
    using f h by auto
  from 2 t n have 4: "c = errorPrefix @ ascii ''Failed to fetch'' @ checkKeyText" by auto
  from callGeminiAPI_never_rejects[where fetch = "\<lambda>r. OkResponse (Inr (Some campaign_response))"
      and key = "apiKey chat_state" and userMessage = "input chat_state"
      and eng = example_engine and s = chat_state and now = 2 and now' = 3, OF refl]
  obtain d where
    5: "callGeminiAPI example_engine (\<lambda>r. OkResponse (Inr (Some campaign_response)))
          (apiKey chat_state) (input chat_state) = Inr d"
    and 6: "d = (case responseText campaign_response of
                   Some t \<Rightarrow> t | None \<Rightarrow> emptyResponseWarning)"
    using g by auto
  from 1 3 4 5 6 f g h show ?thesis by (simp add: campaign_text)
qed

end
